theory Spec2Isabelle
  imports Main "HOL-Library.Word" "HOL-Library.Sublist"
begin

section \<open>Data model\<close>

text \<open>
  The session and tunnel subsystem of the rport server: \<^verbatim>\<open>server/clients/client.go\<close>
  (type \<^verbatim>\<open>Client\<close>, the session) and \<^verbatim>\<open>server/session_service.go\<close>
  (type \<^verbatim>\<open>SessionService\<close>).

  A Go \<^verbatim>\<open>error\<close> is an opaque value carrying a message.
\<close>

datatype error = Error string

text \<open>
  \<^verbatim>\<open>time.Time\<close> is an instant, counted here in nanoseconds on an unbounded
  time line; \<^verbatim>\<open>time.Duration\<close> is an \<^verbatim>\<open>int64\<close> number of nanoseconds.
\<close>

type_synonym Time = int
type_synonym Duration = "64 word"

text \<open>
  Modelled from the spec: the declaration of \<^verbatim>\<open>chshare.Remote\<close>, one requested
  forwarding, is missing. It has a local host and port (the server-side listener, optional:
  absent when empty), a remote host and port, an optional scheme hint, an optional ACL
  string and the \<^verbatim>\<open>localPortRandom\<close> mark.
\<close>

record Remote =
  LocalHost :: string
  LocalPort :: string
  RemoteHost :: string
  RemotePort :: string
  Scheme :: "string option"
  ACL :: "string option"
  LocalPortRandom :: bool

text \<open>
  Modelled from the spec: the declaration of \<^verbatim>\<open>TunnelACL\<close> is missing. It is an
  ordered list of CIDR networks, each kept here in its textual form. \<^verbatim>\<open>StartTunnel\<close>
  receives a pointer to it, which may be nil.
\<close>

type_synonym TunnelACL = "string list"

text \<open>
  Modelled from the spec: the declaration of \<^verbatim>\<open>Tunnel\<close> is missing. It has a tunnel
  ID (the field \<^verbatim>\<open>ID\<close>), the original Remote and the ACL; its reference to the
  session's transport and its terminal-state signal are part of the world below.
\<close>

record Tunnel =
  TunnelID :: string
  TunnelRemote :: Remote
  TunnelACL :: "TunnelACL option"

text \<open>
  Modelled from the spec: \<^verbatim>\<open>NewTunnel(logger, conn, id, remote, acl)\<close> is missing. It
  constructs the tunnel with that ID, remote and ACL.
\<close>

definition NewTunnel :: "string \<Rightarrow> Remote \<Rightarrow> TunnelACL option \<Rightarrow> Tunnel" where
  "NewTunnel tunnelID r acl = \<lparr>TunnelID = tunnelID, TunnelRemote = r, TunnelACL = acl\<rparr>"

text \<open>
  \<^verbatim>\<open>Client\<close> of \<^verbatim>\<open>client.go\<close>. The connection, context, logger and mutex are handles
  with no content of their own here; what the connection's tunnels do to the outside is
  part of the world the external operations below act on.
  \<^verbatim>\<open>tunnelIDAutoIncrement\<close> is an \<^verbatim>\<open>int64\<close>.
\<close>

record Client =
  ID :: string
  Name :: string
  OS :: string
  OSArch :: string
  OSFamily :: string
  OSKernel :: string
  Hostname :: string
  IPv4 :: "string list"
  IPv6 :: "string list"
  Tags :: "string list"
  Version :: string
  Address :: string
  Tunnels :: "Tunnel list"
  DisconnectedAt :: "Time option"
  ClientAuthID :: string
  tunnelIDAutoIncrement :: "64 word"

text \<open>
  The operations of the port distributor, of the ACL parser, of a tunnel and of a remote
  are parameters: each acts on a world \<open>'w\<close> (the operating system's listeners, the port
  distributor's pool) and returns its error, if any, with the new world.
  \<^item> \<open>pd_Refresh\<close>, \<open>pd_GetRandomPort\<close>: \<^verbatim>\<open>PortDistributor.Refresh\<close>, \<^verbatim>\<open>GetRandomPort\<close>;
  \<^item> \<open>acl_Parse\<close>: \<^verbatim>\<open>sessions.ParseTunnelACL\<close>;
  \<^item> \<open>tunnel_Start\<close>, \<open>tunnel_Terminate\<close>, \<open>tunnel_Equals\<close>: \<^verbatim>\<open>Tunnel.Start\<close>,
    \<^verbatim>\<open>Tunnel.Terminate\<close>, \<^verbatim>\<open>Tunnel.Equals\<close>;
  \<^item> \<open>remote_IsLocalSpecified\<close>: \<^verbatim>\<open>Remote.IsLocalSpecified\<close>.
\<close>

record 'w externals =
  pd_Refresh :: "'w \<Rightarrow> error option \<times> 'w"
  pd_GetRandomPort :: "'w \<Rightarrow> (error + int) \<times> 'w"
  acl_Parse :: "string option \<Rightarrow> error + TunnelACL option"
  tunnel_Start :: "Tunnel \<Rightarrow> 'w \<Rightarrow> error option \<times> 'w"
  tunnel_Terminate :: "Tunnel \<Rightarrow> 'w \<Rightarrow> error option \<times> 'w"
  tunnel_Equals :: "Tunnel \<Rightarrow> Remote \<Rightarrow> bool"
  remote_IsLocalSpecified :: "Remote \<Rightarrow> bool"

section \<open>Decimal strings\<close>

text \<open>
  \<^verbatim>\<open>strconv.Itoa\<close> and \<^verbatim>\<open>strconv.FormatInt(_, 10)\<close>: a minus sign for a negative
  number, then the decimal digits, most significant first, with no leading zero.
\<close>

definition digit_char :: "nat \<Rightarrow> char" where
  "digit_char d = ''0123456789'' ! d"

function udecimal :: "nat \<Rightarrow> string" where
  "udecimal n = (if n < 10 then [digit_char n] else udecimal (n div 10) @ [digit_char (n mod 10)])"
  by pat_completeness auto
termination
  by (relation "measure (\<lambda>n. n)") auto

declare udecimal.simps [simp del]

definition Itoa :: "int \<Rightarrow> string" where
  "Itoa i = (if i < 0 then CHR ''-'' # udecimal (nat (- i)) else udecimal (nat i))"

definition FormatInt10 :: "64 word \<Rightarrow> string" where
  "FormatInt10 i = Itoa (sint i)"

text \<open>
  Reading a decimal string back (\<^verbatim>\<open>int(t.ID)\<close> in the spec's words): \<open>None\<close> when the
  string is not an optional minus sign followed by at least one digit.
\<close>

definition digit_val :: "char \<Rightarrow> nat option" where
  "digit_val ch =
     (let v = (of_char ch :: nat) in if 48 \<le> v \<and> v \<le> 57 then Some (v - 48) else None)"

fun parse_digits :: "nat \<Rightarrow> string \<Rightarrow> nat option" where
  "parse_digits acc [] = Some acc"
| "parse_digits acc (ch # s) =
     (case digit_val ch of None \<Rightarrow> None | Some d \<Rightarrow> parse_digits (10 * acc + d) s)"

definition Atoi :: "string \<Rightarrow> int option" where
  "Atoi s =
     (case s of
        [] \<Rightarrow> None
      | ch # others \<Rightarrow>
          if ch = CHR ''-'' then
            (if others = [] then None else map_option (\<lambda>n. - int n) (parse_digits 0 others))
          else map_option int (parse_digits 0 s))"

section \<open>The session: \<^verbatim>\<open>client.go\<close>\<close>

text \<open>\<^verbatim>\<open>Obsolete\<close>: \<^verbatim>\<open>now\<close> is the package variable that stubs \<^verbatim>\<open>time.Now\<close>.\<close>

definition Time_Add :: "Time \<Rightarrow> Duration \<Rightarrow> Time" where
  "Time_Add t d = t + sint d"

definition Time_Before :: "Time \<Rightarrow> Time \<Rightarrow> bool" where
  "Time_Before t u = (t < u)"

definition Obsolete :: "Time \<Rightarrow> Client \<Rightarrow> Duration option \<Rightarrow> bool" where
  "Obsolete now c duration =
     (case duration of
        None \<Rightarrow> False
      | Some d \<Rightarrow>
          (case DisconnectedAt c of
             None \<Rightarrow> False
           | Some t \<Rightarrow> Time_Before (Time_Add t d) now))"

text \<open>\<^verbatim>\<open>FindTunnelByRemote\<close>: the first tunnel of the list that equals the remote, or nil.\<close>

fun find_by_remote :: "(Tunnel \<Rightarrow> Remote \<Rightarrow> bool) \<Rightarrow> Tunnel list \<Rightarrow> Remote \<Rightarrow> Tunnel option" where
  "find_by_remote eq [] r = None"
| "find_by_remote eq (cur # others) r = (if eq cur r then Some cur else find_by_remote eq others r)"

definition FindTunnelByRemote :: "'w externals \<Rightarrow> Client \<Rightarrow> Remote \<Rightarrow> Tunnel option" where
  "FindTunnelByRemote ext c r = find_by_remote (tunnel_Equals ext) (Tunnels c) r"

text \<open>\<^verbatim>\<open>FindTunnel\<close>: the first tunnel with the given ID, or nil.\<close>

fun find_by_id :: "Tunnel list \<Rightarrow> string \<Rightarrow> Tunnel option" where
  "find_by_id [] i = None"
| "find_by_id (cur # others) i = (if TunnelID cur = i then Some cur else find_by_id others i)"

definition FindTunnel :: "Client \<Rightarrow> string \<Rightarrow> Tunnel option" where
  "FindTunnel c i = find_by_id (Tunnels c) i"

text \<open>
  \<^verbatim>\<open>generateNewTunnelID\<close>: \<^verbatim>\<open>atomic.AddInt64(&c.tunnelIDAutoIncrement, 1)\<close> adds one,
  wrapping around, and returns the new value.
\<close>

definition generateNewTunnelID :: "Client \<Rightarrow> 64 word \<times> Client" where
  "generateNewTunnelID c =
     (let n = tunnelIDAutoIncrement c + 1 in (n, c\<lparr>tunnelIDAutoIncrement := n\<rparr>))"

text \<open>\<^verbatim>\<open>StartTunnel\<close>: the result, the session and the world afterwards.\<close>

definition StartTunnel ::
  "'w externals \<Rightarrow> Remote \<Rightarrow> TunnelACL option \<Rightarrow> Client \<Rightarrow> 'w \<Rightarrow> (error + Tunnel) \<times> Client \<times> 'w" where
  "StartTunnel ext r acl c w =
     (case FindTunnelByRemote ext c r of
        Some t \<Rightarrow> (Inr t, c, w)
      | None \<Rightarrow>
          (case generateNewTunnelID c of
             (n, c1) \<Rightarrow>
               (let tunnelID = FormatInt10 n;
                    t = NewTunnel tunnelID r acl
                in case tunnel_Start ext t w of
                     (Some err, w1) \<Rightarrow> (Inl err, c1, w1)
                   | (None, w1) \<Rightarrow> (Inr t, c1\<lparr>Tunnels := Tunnels c1 @ [t]\<rparr>, w1))))"

text \<open>\<^verbatim>\<open>removeTunnel\<close>: the loop appends to \<^verbatim>\<open>result\<close> every tunnel \<^verbatim>\<open>curr\<close> with another ID.\<close>

fun remove_loop :: "Tunnel list \<Rightarrow> Tunnel \<Rightarrow> Tunnel list \<Rightarrow> Tunnel list" where
  "remove_loop result t [] = result"
| "remove_loop result t (cur # others) =
     (if TunnelID cur \<noteq> TunnelID t then remove_loop (result @ [cur]) t others
      else remove_loop result t others)"

definition removeTunnel :: "Client \<Rightarrow> Tunnel \<Rightarrow> Client" where
  "removeTunnel c t = c\<lparr>Tunnels := remove_loop [] t (Tunnels c)\<rparr>"

text \<open>\<^verbatim>\<open>TerminateTunnel\<close>: the error, if any, the session and the world afterwards.\<close>

definition TerminateTunnel :: "'w externals \<Rightarrow> Tunnel \<Rightarrow> Client \<Rightarrow> 'w \<Rightarrow> error option \<times> Client \<times> 'w" where
  "TerminateTunnel ext t c w =
     (case tunnel_Terminate ext t w of
        (Some err, w1) \<Rightarrow> (Some err, c, w1)
      | (None, w1) \<Rightarrow> (None, removeTunnel c t, w1))"

datatype ConnectionState = Connected | Disconnected

definition ConnectionState :: "Client \<Rightarrow> ConnectionState" where
  "ConnectionState c = (if DisconnectedAt c = None then Connected else Disconnected)"

subsection \<open>Client groups\<close>

text \<open>
  Modelled from the spec: the declarations of \<^verbatim>\<open>cgroups.ClientGroup\<close> and its
  parameters are missing. A group's parameters are field matchers, one for each field that
  \<^verbatim>\<open>BelongsTo\<close> checks, each an ordered list of patterns (exact literals or globs); a
  parameter is specified when its list is not empty.
\<close>

type_synonym ParamValues = "string list"

record ClientParams =
  Params_ClientID :: ParamValues
  Params_Name :: ParamValues
  Params_OS :: ParamValues
  Params_OSArch :: ParamValues
  Params_OSFamily :: ParamValues
  Params_OSKernel :: ParamValues
  Params_Hostname :: ParamValues
  Params_IPv4 :: ParamValues
  Params_IPv6 :: ParamValues
  Params_Tag :: ParamValues
  Params_Version :: ParamValues
  Params_Address :: ParamValues
  Params_ClientAuthID :: ParamValues

record ClientGroup =
  Params :: ClientParams

text \<open>
  Modelled from the spec: \<^verbatim>\<open>MatchesOneOf(values...)\<close> is missing. A specified
  parameter must match at least one of its own patterns against the field's value, or
  against any element of a repeated field; a parameter that is not specified asks for
  nothing. How one pattern (literal or glob) matches one value is the parameter \<open>m\<close>.
\<close>

definition MatchesOneOf :: "(string \<Rightarrow> string \<Rightarrow> bool) \<Rightarrow> ParamValues \<Rightarrow> string list \<Rightarrow> bool" where
  "MatchesOneOf m p vals =
     (if p = [] then True
      else list_ex (\<lambda>curParam. list_ex (\<lambda>curValue. m curParam curValue) vals) p)"

text \<open>
  Modelled from the spec: \<^verbatim>\<open>HasNoParams\<close> is missing. It holds for a group with no
  parameters specified at all.
\<close>

definition HasNoParams :: "ClientParams \<Rightarrow> bool" where
  "HasNoParams p =
     (Params_ClientID p = [] \<and> Params_Name p = [] \<and> Params_OS p = [] \<and> Params_OSArch p = [] \<and>
      Params_OSFamily p = [] \<and> Params_OSKernel p = [] \<and> Params_Hostname p = [] \<and>
      Params_IPv4 p = [] \<and> Params_IPv6 p = [] \<and> Params_Tag p = [] \<and> Params_Version p = [] \<and>
      Params_Address p = [] \<and> Params_ClientAuthID p = [])"

text \<open>\<^verbatim>\<open>BelongsTo\<close>, with its checks in the order of the code.\<close>

definition BelongsTo :: "(string \<Rightarrow> string \<Rightarrow> bool) \<Rightarrow> Client \<Rightarrow> ClientGroup \<Rightarrow> bool" where
  "BelongsTo m c grp =
     (let p = Params grp in
      if HasNoParams p then False
      else if \<not> MatchesOneOf m (Params_ClientID p) [ID c] then False
      else if \<not> MatchesOneOf m (Params_Name p) [Name c] then False
      else if \<not> MatchesOneOf m (Params_OS p) [OS c] then False
      else if \<not> MatchesOneOf m (Params_OSArch p) [OSArch c] then False
      else if \<not> MatchesOneOf m (Params_OSFamily p) [OSFamily c] then False
      else if \<not> MatchesOneOf m (Params_OSKernel p) [OSKernel c] then False
      else if \<not> MatchesOneOf m (Params_Hostname p) [Hostname c] then False
      else if \<not> MatchesOneOf m (Params_IPv4 p) (IPv4 c) then False
      else if \<not> MatchesOneOf m (Params_IPv6 p) (IPv6 c) then False
      else if \<not> MatchesOneOf m (Params_Tag p) (Tags c) then False
      else if \<not> MatchesOneOf m (Params_Version p) [Version c] then False
      else if \<not> MatchesOneOf m (Params_Address p) [Address c] then False
      else if \<not> MatchesOneOf m (Params_ClientAuthID p) [ClientAuthID c] then False
      else True)"

text \<open>
  The spec's words: a specified parameter is satisfied by a field when one of its patterns
  matches one of the field's values (the one value of a plain field, any element of a
  repeated one); a parameter that is not specified asks for nothing.
\<close>

definition specified :: "ParamValues \<Rightarrow> bool" where
  "specified p = (p \<noteq> [])"

definition satisfied :: "(string \<Rightarrow> string \<Rightarrow> bool) \<Rightarrow> ParamValues \<Rightarrow> string list \<Rightarrow> bool" where
  "satisfied m p vals = (\<exists>pat \<in> set p. \<exists>v \<in> set vals. m pat v)"

section \<open>The session repository\<close>

text \<open>
  Modelled from the spec: the declaration of \<^verbatim>\<open>ClientSessionRepository\<close> is missing.
  It is a mapping from session ID to session plus the optional retention duration
  (\<^verbatim>\<open>KeepLostClients\<close> in the code), with at most one entry for each session ID.
\<close>

record ClientSessionRepository =
  sessions :: "string \<rightharpoonup> Client"
  KeepLostClients :: "Duration option"

text \<open>
  Modelled from the spec: \<^verbatim>\<open>Save\<close> is missing. It inserts or replaces the entry under
  the session's ID. The code gives it an error result, which the spec never has it use.
\<close>

definition Save :: "Client \<Rightarrow> ClientSessionRepository \<Rightarrow> error option \<times> ClientSessionRepository" where
  "Save session repo = (None, repo\<lparr>sessions := (sessions repo)(ID session \<mapsto> session)\<rparr>)"

text \<open>
  Modelled from the spec: \<^verbatim>\<open>Delete\<close> is missing. It removes the entry for the
  session's ID (no-op if absent). The code gives it an error result, which the spec never
  has it use.
\<close>

definition Delete :: "Client \<Rightarrow> ClientSessionRepository \<Rightarrow> error option \<times> ClientSessionRepository" where
  "Delete session repo = (None, repo\<lparr>sessions := (sessions repo)(ID session := None)\<rparr>)"

text \<open>
  Modelled from the spec: \<^verbatim>\<open>GetByID\<close> is missing. It returns any session, connected
  or disconnected, or nil.
\<close>

definition GetByID :: "ClientSessionRepository \<Rightarrow> string \<Rightarrow> Client option" where
  "GetByID repo i = sessions repo i"

text \<open>
  Modelled from the spec: \<^verbatim>\<open>GetActiveByID\<close> is missing. It returns the session only
  if its \<^verbatim>\<open>DisconnectedAt\<close> is nil; otherwise nil.
\<close>

definition GetActiveByID :: "ClientSessionRepository \<Rightarrow> string \<Rightarrow> Client option" where
  "GetActiveByID repo i =
     (case sessions repo i of
        None \<Rightarrow> None
      | Some session \<Rightarrow> if DisconnectedAt session = None then Some session else None)"

section \<open>The session service: \<^verbatim>\<open>session_service.go\<close>\<close>

text \<open>
  Modelled from the spec: the declaration of \<^verbatim>\<open>chshare.ConnectionRequest\<close> is
  missing. It holds a name, tags, OS identity, hostname, version, IPv4 and IPv6 lists and
  the list of remotes; these are the fields that \<^verbatim>\<open>StartClientSession\<close> reads.
\<close>

record ConnectionRequest =
  req_Name :: string
  req_Tags :: "string list"
  req_OS :: string
  req_Hostname :: string
  req_Version :: string
  req_IPv4 :: "string list"
  req_IPv6 :: "string list"
  req_Remotes :: "Remote list"

text \<open>
  The body of the loop of \<^verbatim>\<open>StartSessionTunnels\<close> up to the ACL: a remote whose local
  side is not specified gets a port of the distributor. The result is the error or the
  remote as it is afterwards (the code updates it in place), and the world.
\<close>

definition assign_local :: "'w externals \<Rightarrow> Remote \<Rightarrow> 'w \<Rightarrow> (error + Remote) \<times> 'w" where
  "assign_local ext remote w =
     (if \<not> remote_IsLocalSpecified ext remote then
        (case pd_GetRandomPort ext w of
           (Inl err, w1) \<Rightarrow> (Inl err, w1)
         | (Inr port, w1) \<Rightarrow>
             (Inr (remote\<lparr>LocalPort := Itoa port, LocalHost := ''0.0.0.0'',
                          LocalPortRandom := True\<rparr>), w1))
      else (Inr remote, w))"

text \<open>
  The loop of \<^verbatim>\<open>StartSessionTunnels\<close>, with \<^verbatim>\<open>tunnels\<close> as its accumulator. The result
  is the error or the tunnels, the remotes as they are afterwards, the session and the
  world.
\<close>

fun tunnels_loop ::
  "'w externals \<Rightarrow> Tunnel list \<Rightarrow> Remote list \<Rightarrow> Client \<Rightarrow> 'w
   \<Rightarrow> (error + Tunnel list) \<times> Remote list \<times> Client \<times> 'w" where
  "tunnels_loop ext tunnels [] session w = (Inr tunnels, [], session, w)"
| "tunnels_loop ext tunnels (remote # others) session w =
     (case assign_local ext remote w of
        (Inl err, w1) \<Rightarrow> (Inl err, remote # others, session, w1)
      | (Inr remote1, w1) \<Rightarrow>
          (case acl_Parse ext (ACL remote1) of
             Inl err \<Rightarrow> (Inl err, remote1 # others, session, w1)
           | Inr acl \<Rightarrow>
               (case StartTunnel ext remote1 acl session w1 of
                  (Inl err, session2, w2) \<Rightarrow> (Inl err, remote1 # others, session2, w2)
                | (Inr t, session2, w2) \<Rightarrow>
                    (case tunnels_loop ext (tunnels @ [t]) others session2 w2 of
                       (res, others3, session3, w3) \<Rightarrow> (res, remote1 # others3, session3, w3)))))"

definition StartSessionTunnels ::
  "'w externals \<Rightarrow> Client \<Rightarrow> Remote list \<Rightarrow> 'w
   \<Rightarrow> (error + Tunnel list) \<times> Remote list \<times> Client \<times> 'w" where
  "StartSessionTunnels ext session remotes w =
     (case pd_Refresh ext w of
        (Some err, w1) \<Rightarrow> (Inl err, remotes, session, w1)
      | (None, w1) \<Rightarrow> tunnels_loop ext [] remotes session w1)"

text \<open>
  The session that \<^verbatim>\<open>StartClientSession\<close> constructs; \<open>addr\<close> is
  \<^verbatim>\<open>sshConn.RemoteAddr().String()\<close>. The fields the struct literal does not name have
  their zero values.
\<close>

definition new_session :: "string \<Rightarrow> string \<Rightarrow> ConnectionRequest \<Rightarrow> Client" where
  "new_session sid addr req =
     \<lparr>ID = sid, Name = req_Name req, OS = req_OS req, OSArch = [], OSFamily = [], OSKernel = [],
      Hostname = req_Hostname req, IPv4 = req_IPv4 req, IPv6 = req_IPv6 req, Tags = req_Tags req,
      Version = req_Version req, Address = addr, Tunnels = [], DisconnectedAt = None,
      ClientAuthID = [], tunnelIDAutoIncrement = 0\<rparr>"

text \<open>
  \<^verbatim>\<open>StartClientSession\<close>: the error or the session, the request's remotes as they are
  afterwards, the repository and the world.
\<close>

definition StartClientSession ::
  "'w externals \<Rightarrow> string \<Rightarrow> string \<Rightarrow> ConnectionRequest \<Rightarrow> ClientSessionRepository \<Rightarrow> 'w
   \<Rightarrow> (error + Client) \<times> Remote list \<times> ClientSessionRepository \<times> 'w" where
  "StartClientSession ext sid addr req repo w =
     (case StartSessionTunnels ext (new_session sid addr req) (req_Remotes req) w of
        (Inl err, remotes1, session1, w1) \<Rightarrow> (Inl err, remotes1, repo, w1)
      | (Inr _, remotes1, session1, w1) \<Rightarrow>
          (case Save session1 repo of
             (Some err, repo1) \<Rightarrow> (Inl err, remotes1, repo1, w1)
           | (None, repo1) \<Rightarrow> (Inr session1, remotes1, repo1, w1)))"

text \<open>
  \<^verbatim>\<open>SessionService.Terminate\<close>; \<open>now\<close> is the value of \<^verbatim>\<open>time.Now()\<close>. The code's
  \<^verbatim>\<open>session.Disconnected\<close> is the field \<^verbatim>\<open>DisconnectedAt\<close> of \<^verbatim>\<open>client.go\<close>. The
  result is the error, if any, the session and the repository.
\<close>

definition Terminate ::
  "Time \<Rightarrow> Client \<Rightarrow> ClientSessionRepository \<Rightarrow> error option \<times> Client \<times> ClientSessionRepository" where
  "Terminate now session repo =
     (if KeepLostClients repo = None then
        (case Delete session repo of (err, repo1) \<Rightarrow> (err, session, repo1))
      else
        (let session1 = session\<lparr>DisconnectedAt := Some now\<rparr>
         in case Save session1 repo of (err, repo1) \<Rightarrow> (err, session1, repo1)))"

section \<open>The words of the spec for \<^verbatim>\<open>StartSessionTunnels\<close>\<close>

text \<open>
  What the spec says is done for one remote: if no local port is specified, obtain one via
  \<^verbatim>\<open>GetRandomPort\<close>, set the local port to it, the local host to \<^verbatim>\<open>0.0.0.0\<close> and mark
  the port as random; parse the ACL; call \<^verbatim>\<open>session.StartTunnel\<close>. The first failure ends
  the step with its error.
\<close>

definition spec_remote_step ::
  "'w externals \<Rightarrow> Remote \<Rightarrow> Client \<Rightarrow> 'w \<Rightarrow> (error + Tunnel) \<times> Remote \<times> Client \<times> 'w" where
  "spec_remote_step ext remote session w =
     (if remote_IsLocalSpecified ext remote then
        (case acl_Parse ext (ACL remote) of
           Inl err \<Rightarrow> (Inl err, remote, session, w)
         | Inr acl \<Rightarrow>
             (case StartTunnel ext remote acl session w of
                (res, session2, w2) \<Rightarrow> (res, remote, session2, w2)))
      else
        (case pd_GetRandomPort ext w of
           (Inl err, w1) \<Rightarrow> (Inl err, remote, session, w1)
         | (Inr port, w1) \<Rightarrow>
             (let remote1 = remote\<lparr>LocalPort := Itoa port, LocalHost := ''0.0.0.0'',
                                    LocalPortRandom := True\<rparr>
              in case acl_Parse ext (ACL remote1) of
                   Inl err \<Rightarrow> (Inl err, remote1, session, w1)
                 | Inr acl \<Rightarrow>
                     (case StartTunnel ext remote1 acl session w1 of
                        (res, session2, w2) \<Rightarrow> (res, remote1, session2, w2)))))"

text \<open>
  The remotes in order: a step that fails ends the run with its error, the remotes after it
  untouched; a step that succeeds puts its tunnel in front of those of the remaining remotes.
\<close>

fun spec_remotes ::
  "'w externals \<Rightarrow> Remote list \<Rightarrow> Client \<Rightarrow> 'w
   \<Rightarrow> (error + Tunnel list) \<times> Remote list \<times> Client \<times> 'w" where
  "spec_remotes ext [] session w = (Inr [], [], session, w)"
| "spec_remotes ext (remote # others) session w =
     (case spec_remote_step ext remote session w of
        (Inl err, remote1, session1, w1) \<Rightarrow> (Inl err, remote1 # others, session1, w1)
      | (Inr t, remote1, session1, w1) \<Rightarrow>
          (case spec_remotes ext others session1 w1 of
             (Inl err, others2, session2, w2) \<Rightarrow> (Inl err, remote1 # others2, session2, w2)
           | (Inr ts, others2, session2, w2) \<Rightarrow> (Inr (t # ts), remote1 # others2, session2, w2)))"

definition spec_StartSessionTunnels ::
  "'w externals \<Rightarrow> Client \<Rightarrow> Remote list \<Rightarrow> 'w
   \<Rightarrow> (error + Tunnel list) \<times> Remote list \<times> Client \<times> 'w" where
  "spec_StartSessionTunnels ext session remotes w =
     (case pd_Refresh ext w of
        (Some err, w1) \<Rightarrow> (Inl err, remotes, session, w1)
      | (None, w1) \<Rightarrow> spec_remotes ext remotes session w1)"

section \<open>Tunnel IDs as numbers\<close>

text \<open>
  \<^verbatim>\<open>int(t.ID)\<close>: the number a tunnel's ID stands for, if it is a decimal string.
\<close>

definition tunnel_int :: "Tunnel \<Rightarrow> int option" where
  "tunnel_int t = Atoi (TunnelID t)"

text \<open>
  The invariant of a session's tunnel IDs: the counter is not negative, every tunnel of
  the list has an ID that stands for a number from 1 up to the counter, and along the list
  (which is in order of creation, since \<^verbatim>\<open>StartTunnel\<close> appends and
  \<^verbatim>\<open>removeTunnel\<close> keeps the order) these numbers strictly increase.
\<close>

definition id_before :: "Tunnel \<Rightarrow> Tunnel \<Rightarrow> bool" where
  "id_before a b =
     (case tunnel_int a of
        None \<Rightarrow> False
      | Some x \<Rightarrow> (case tunnel_int b of None \<Rightarrow> False | Some y \<Rightarrow> x < y))"

definition id_allocated :: "64 word \<Rightarrow> Tunnel \<Rightarrow> bool" where
  "id_allocated n t = (case tunnel_int t of None \<Rightarrow> False | Some x \<Rightarrow> 1 \<le> x \<and> x \<le> sint n)"

definition ids_increasing :: "Client \<Rightarrow> bool" where
  "ids_increasing c =
     (0 \<le> sint (tunnelIDAutoIncrement c) \<and>
      list_all (id_allocated (tunnelIDAutoIncrement c)) (Tunnels c) \<and>
      sorted_wrt id_before (Tunnels c))"

text \<open>
  A caller of one session: any sequence of \<^verbatim>\<open>StartTunnel\<close> and \<^verbatim>\<open>TerminateTunnel\<close>
  calls, whatever they return.
\<close>

datatype session_call = CallStartTunnel Remote "TunnelACL option" | CallTerminateTunnel Tunnel

fun session_calls :: "'w externals \<Rightarrow> session_call list \<Rightarrow> Client \<Rightarrow> 'w \<Rightarrow> Client \<times> 'w" where
  "session_calls ext [] c w = (c, w)"
| "session_calls ext (CallStartTunnel r acl # calls) c w =
     (case StartTunnel ext r acl c w of (_, c1, w1) \<Rightarrow> session_calls ext calls c1 w1)"
| "session_calls ext (CallTerminateTunnel t # calls) c w =
     (case TerminateTunnel ext t c w of (_, c1, w1) \<Rightarrow> session_calls ext calls c1 w1)"

text \<open>
  The counter does not wrap around during the calls: no new ID is taken (by a
  \<^verbatim>\<open>StartTunnel\<close> that finds no equal tunnel) while the counter is at the largest
  \<^verbatim>\<open>int64\<close>, \<open>2\<^sup>6\<^sup>3 - 1\<close>.
\<close>

fun no_wrap :: "'w externals \<Rightarrow> session_call list \<Rightarrow> Client \<Rightarrow> 'w \<Rightarrow> bool" where
  "no_wrap ext [] c w = True"
| "no_wrap ext (CallStartTunnel r acl # calls) c w =
     ((if FindTunnelByRemote ext c r = None
       then sint (tunnelIDAutoIncrement c) < 9223372036854775807 else True) \<and>
      (case StartTunnel ext r acl c w of (_, c1, w1) \<Rightarrow> no_wrap ext calls c1 w1))"
| "no_wrap ext (CallTerminateTunnel t # calls) c w =
     (case TerminateTunnel ext t c w of (_, c1, w1) \<Rightarrow> no_wrap ext calls c1 w1)"

text \<open>
  The IDs that the calls hand out, in the order of their allocation. A \<^verbatim>\<open>StartTunnel\<close>
  that finds no equal tunnel takes a new ID: the ID of the tunnel it returns or, when the
  tunnel's \<^verbatim>\<open>Start\<close> fails, the decimal representation of the value the counter is left
  at, an ID that is consumed and that no tunnel carries. A \<^verbatim>\<open>StartTunnel\<close> that finds
  an equal tunnel and a \<^verbatim>\<open>TerminateTunnel\<close> hand out nothing.
\<close>

fun handed_out :: "'w externals \<Rightarrow> session_call list \<Rightarrow> Client \<Rightarrow> 'w \<Rightarrow> string list" where
  "handed_out ext [] c w = []"
| "handed_out ext (CallStartTunnel r acl # calls) c w =
     (case StartTunnel ext r acl c w of
        (res, c1, w1) \<Rightarrow>
          (case FindTunnelByRemote ext c r of
             Some _ \<Rightarrow> []
           | None \<Rightarrow>
               (case res of
                  Inr t \<Rightarrow> [TunnelID t]
                | Inl _ \<Rightarrow> [FormatInt10 (tunnelIDAutoIncrement c1)]))
          @ handed_out ext calls c1 w1)"
| "handed_out ext (CallTerminateTunnel t # calls) c w =
     (case TerminateTunnel ext t c w of (_, c1, w1) \<Rightarrow> handed_out ext calls c1 w1)"

section \<open>A concrete world\<close>

text \<open>
  One instance of the external operations, on a world that holds the TCP listeners bound
  on the host and the port distributor's pool. It is the instance the examples below run
  on; the theorems hold for every instance.
\<close>

record sim_world =
  listening :: "(string \<times> string) list"
  pool :: "int list"
  busy :: "string list"
  os_ok :: bool

text \<open>
  Modelled from the spec: \<^verbatim>\<open>PortDistributor.Refresh\<close> is missing. It re-reads the
  ports bound on the host into the busy snapshot and fails when the operating system cannot
  be queried.
\<close>

definition sim_Refresh :: "sim_world \<Rightarrow> error option \<times> sim_world" where
  "sim_Refresh w =
     (if os_ok w then (None, w\<lparr>busy := map snd (listening w)\<rparr>)
      else (Some (Error ''OSQueryError''), w))"

text \<open>
  Modelled from the spec: \<^verbatim>\<open>PortDistributor.GetRandomPort\<close> is missing. It returns a
  port of the pool that is not busy and removes it from the pool, or fails when there is
  none. The spec leaves the choice open; here it is the first such port.
\<close>

definition sim_GetRandomPort :: "sim_world \<Rightarrow> (error + int) \<times> sim_world" where
  "sim_GetRandomPort w =
     (case filter (\<lambda>p. Itoa p \<notin> set (busy w)) (pool w) of
        [] \<Rightarrow> (Inl (Error ''PortExhaustedError''), w)
      | p # _ \<Rightarrow> (Inr p, w\<lparr>pool := removeAll p (pool w)\<rparr>))"

text \<open>
  Modelled from the spec: \<^verbatim>\<open>sessions.ParseTunnelACL\<close> is missing. The empty string
  yields the empty ACL, a list of addresses or CIDRs yields its rules, anything else is an
  error. Here a list is taken whole as one rule and is any string of digits, dots, slashes
  and commas; no ACL string yields no ACL.
\<close>

definition sim_ParseTunnelACL :: "string option \<Rightarrow> error + TunnelACL option" where
  "sim_ParseTunnelACL a =
     (case a of
        None \<Rightarrow> Inr None
      | Some s \<Rightarrow>
          if s = [] then Inr (Some [])
          else if list_all (\<lambda>ch. ch \<in> set ''0123456789./,'') s then Inr (Some [s])
          else Inl (Error ''ACLParseError''))"

text \<open>
  Modelled from the spec: \<^verbatim>\<open>Tunnel.Start\<close> is missing. It binds a TCP listener on the
  remote's local host and port and fails when the bind fails: here, when the address is
  already bound.
\<close>

definition sim_Start :: "Tunnel \<Rightarrow> sim_world \<Rightarrow> error option \<times> sim_world" where
  "sim_Start t w =
     (let a = (LocalHost (TunnelRemote t), LocalPort (TunnelRemote t))
      in if a \<in> set (listening w) then (Some (Error ''BindError''), w)
         else (None, w\<lparr>listening := listening w @ [a]\<rparr>))"

text \<open>
  Modelled from the spec: \<^verbatim>\<open>Tunnel.Terminate\<close> is missing. It closes the listener and
  is idempotent.
\<close>

definition sim_Terminate :: "Tunnel \<Rightarrow> sim_world \<Rightarrow> error option \<times> sim_world" where
  "sim_Terminate t w =
     (None, w\<lparr>listening :=
               removeAll (LocalHost (TunnelRemote t), LocalPort (TunnelRemote t)) (listening w)\<rparr>)"

text \<open>
  Modelled from the spec: \<^verbatim>\<open>Tunnel.Equals\<close> is missing. It compares local host, local
  port, remote host, remote port and scheme.
\<close>

definition sim_Equals :: "Tunnel \<Rightarrow> Remote \<Rightarrow> bool" where
  "sim_Equals t r =
     (LocalHost (TunnelRemote t) = LocalHost r \<and> LocalPort (TunnelRemote t) = LocalPort r \<and>
      RemoteHost (TunnelRemote t) = RemoteHost r \<and> RemotePort (TunnelRemote t) = RemotePort r \<and>
      Scheme (TunnelRemote t) = Scheme r)"

text \<open>
  Modelled from the spec: \<^verbatim>\<open>Remote.IsLocalSpecified\<close> is missing. A remote's local
  side is specified when it has a local port.
\<close>

definition sim_IsLocalSpecified :: "Remote \<Rightarrow> bool" where
  "sim_IsLocalSpecified r = (LocalPort r \<noteq> [])"

definition sim :: "sim_world externals" where
  "sim = \<lparr>pd_Refresh = sim_Refresh, pd_GetRandomPort = sim_GetRandomPort,
          acl_Parse = sim_ParseTunnelACL, tunnel_Start = sim_Start,
          tunnel_Terminate = sim_Terminate, tunnel_Equals = sim_Equals,
          remote_IsLocalSpecified = sim_IsLocalSpecified\<rparr>"

text \<open>
  The same world with tunnels whose \<^verbatim>\<open>Terminate\<close> returns an error, as its result
  type allows, and leaves the listener as it is.
\<close>

definition sim_stuck :: "sim_world externals" where
  "sim_stuck = sim\<lparr>tunnel_Terminate := (\<lambda>t w. (Some (Error ''close failed''), w))\<rparr>"

subsection \<open>Example values\<close>

definition remote_to :: "string \<Rightarrow> string \<Rightarrow> Remote" where
  "remote_to lport rport =
     \<lparr>LocalHost = (if lport = [] then [] else ''0.0.0.0''), LocalPort = lport,
      RemoteHost = ''127.0.0.1'', RemotePort = rport, Scheme = None, ACL = None,
      LocalPortRandom = False\<rparr>"

definition new_client :: "string \<Rightarrow> Client" where
  "new_client sid =
     \<lparr>ID = sid, Name = [], OS = [], OSArch = [], OSFamily = [], OSKernel = [], Hostname = [],
      IPv4 = [], IPv6 = [], Tags = [], Version = [], Address = [], Tunnels = [],
      DisconnectedAt = None, ClientAuthID = [], tunnelIDAutoIncrement = 0\<rparr>"

definition tunnel_of :: "string \<Rightarrow> string \<Rightarrow> string \<Rightarrow> Tunnel" where
  "tunnel_of tid lport rport = NewTunnel tid (remote_to lport rport) None"

definition idle_world :: sim_world where
  "idle_world = \<lparr>listening = [], pool = [20000, 20001, 20002], busy = [], os_ok = True\<rparr>"

text \<open>A host on which port 2001 is already bound.\<close>

definition busy_world :: sim_world where
  "busy_world = idle_world\<lparr>listening := [(''0.0.0.0'', ''2001'')]\<rparr>"

definition empty_repo :: ClientSessionRepository where
  "empty_repo = \<lparr>sessions = Map.empty, KeepLostClients = None\<rparr>"

definition request_for :: "Remote list \<Rightarrow> ConnectionRequest" where
  "request_for remotes =
     \<lparr>req_Name = ''agent'', req_Tags = [''linux''], req_OS = ''Linux'', req_Hostname = ''host1'',
      req_Version = ''0.1.0'', req_IPv4 = [''192.168.1.5''], req_IPv6 = [], req_Remotes = remotes\<rparr>"

definition only_name :: "ParamValues \<Rightarrow> ClientGroup" where
  "only_name pats =
     \<lparr>Params = \<lparr>Params_ClientID = [], Params_Name = pats, Params_OS = [], Params_OSArch = [],
                Params_OSFamily = [], Params_OSKernel = [], Params_Hostname = [],
                Params_IPv4 = [], Params_IPv6 = [], Params_Tag = [], Params_Version = [],
                Params_Address = [], Params_ClientAuthID = []\<rparr>\<rparr>"

section \<open>Properties of the session\<close>

subsection \<open>Removing a tunnel\<close>

lemma remove_loop_filter:
  "remove_loop result t xs = result @ filter (\<lambda>cur. TunnelID cur \<noteq> TunnelID t) xs"
  by (induction xs arbitrary: result) auto

text \<open>
  C10. Removal is by ID, not by object identity: \<^verbatim>\<open>removeTunnel(t)\<close> leaves in the
  session's list exactly the tunnels whose ID differs from \<^verbatim>\<open>t.ID\<close>, in their former
  order (every tunnel with that ID goes, whatever else it holds), and changes nothing else
  of the session.
\<close>

theorem removeTunnel_by_id:
  "removeTunnel c t = c\<lparr>Tunnels := filter (\<lambda>cur. TunnelID cur \<noteq> TunnelID t) (Tunnels c)\<rparr>
   \<and> set (Tunnels (removeTunnel c t)) = {cur \<in> set (Tunnels c). TunnelID cur \<noteq> TunnelID t}
   \<and> subseq (Tunnels (removeTunnel c t)) (Tunnels c)"
  by (simp add: removeTunnel_def remove_loop_filter)

theorem removeTunnel_by_id_witness:
  "Tunnels (removeTunnel
      (new_client ''s''\<lparr>Tunnels := [tunnel_of ''1'' ''80'' ''8080'', tunnel_of ''2'' ''81'' ''8081'',
                                     tunnel_of ''1'' ''82'' ''8082'', tunnel_of ''3'' ''83'' ''8083'']\<rparr>)
      (tunnel_of ''1'' ''99'' ''9999''))
   = [tunnel_of ''2'' ''81'' ''8081'', tunnel_of ''3'' ''83'' ''8083'']"
  using removeTunnel_by_id [of "new_client ''s''\<lparr>Tunnels := [tunnel_of ''1'' ''80'' ''8080'',
      tunnel_of ''2'' ''81'' ''8081'', tunnel_of ''1'' ''82'' ''8082'', tunnel_of ''3'' ''83'' ''8083'']\<rparr>"
    "tunnel_of ''1'' ''99'' ''9999''"]
  by (simp add: tunnel_of_def NewTunnel_def)

subsection \<open>Obsolete sessions\<close>

text \<open>
  C3, as the code has it. \<^verbatim>\<open>Obsolete(D)\<close> is true if and only if \<open>D\<close> is not nil, the
  session has a \<^verbatim>\<open>DisconnectedAt\<close> and the session has been disconnected for longer than
  \<open>D\<close>: \<open>now - DisconnectedAt > D\<close>. At the boundary \<open>now - DisconnectedAt = D\<close> the
  session is not obsolete.
\<close>

theorem Obsolete_iff_longer:
  "Obsolete now c D \<longleftrightarrow> (\<exists>d t. D = Some d \<and> DisconnectedAt c = Some t \<and> now - t > sint d)"
  by (auto simp: Obsolete_def Time_Before_def Time_Add_def split: option.splits)

theorem Obsolete_iff_longer_witness:
  "Obsolete 11 (new_client ''s''\<lparr>DisconnectedAt := Some 7\<rparr>) (Some 3)
   \<and> \<not> Obsolete 10 (new_client ''s''\<lparr>DisconnectedAt := Some 7\<rparr>) (Some 3)
   \<and> \<not> Obsolete 11 (new_client ''s'') (Some 3)
   \<and> \<not> Obsolete 11 (new_client ''s''\<lparr>DisconnectedAt := Some 7\<rparr>) None"
  using Obsolete_iff_longer [of 11 "new_client ''s''\<lparr>DisconnectedAt := Some 7\<rparr>" "Some 3"]
    Obsolete_iff_longer [of 10 "new_client ''s''\<lparr>DisconnectedAt := Some 7\<rparr>" "Some 3"]
    Obsolete_iff_longer [of 11 "new_client ''s''" "Some 3"]
    Obsolete_iff_longer [of 11 "new_client ''s''\<lparr>DisconnectedAt := Some 7\<rparr>" None]
  by (simp add: new_client_def)

text \<open>
  C3 as stated fails at the boundary: a session disconnected at instant 7, asked at
  instant 10 about a retention of 3, has \<open>now - DisconnectedAt \<ge> D\<close> and is not obsolete.
\<close>

theorem Obsolete_boundary_counterexample:
  "DisconnectedAt (new_client ''s''\<lparr>DisconnectedAt := Some 7\<rparr>) = Some 7
   \<and> (10 :: int) - 7 \<ge> sint (3 :: 64 word)
   \<and> \<not> Obsolete 10 (new_client ''s''\<lparr>DisconnectedAt := Some 7\<rparr>) (Some 3)"
  by (simp add: Obsolete_def Time_Before_def Time_Add_def new_client_def)

subsection \<open>Terminating a tunnel\<close>

text \<open>
  C2, as the code has it. \<^verbatim>\<open>TerminateTunnel(t)\<close> calls \<^verbatim>\<open>t.Terminate()\<close> once. When
  \<^verbatim>\<open>Terminate\<close> returns an error, that error is returned and the session is left as it
  was: \<open>t\<close> is not removed from the tunnel list. When \<^verbatim>\<open>Terminate\<close> succeeds, no error
  is returned and the tunnels with \<open>t\<close>'s ID are removed from the list.
\<close>

theorem TerminateTunnel_outcomes:
  "(tunnel_Terminate ext t w = (Some err, w1) \<longrightarrow>
      TerminateTunnel ext t c w = (Some err, c, w1))
   \<and> (tunnel_Terminate ext t w = (None, w1) \<longrightarrow>
      TerminateTunnel ext t c w =
        (None, c\<lparr>Tunnels := filter (\<lambda>cur. TunnelID cur \<noteq> TunnelID t) (Tunnels c)\<rparr>, w1))"
  by (simp add: TerminateTunnel_def removeTunnel_def remove_loop_filter)

theorem TerminateTunnel_outcomes_witness:
  "tunnel_Terminate sim_stuck (tunnel_of ''1'' ''80'' ''8080'') (idle_world\<lparr>listening := [(''0.0.0.0'', ''80'')]\<rparr>)
     = (Some (Error ''close failed''), idle_world\<lparr>listening := [(''0.0.0.0'', ''80'')]\<rparr>)
   \<and> TerminateTunnel sim_stuck (tunnel_of ''1'' ''80'' ''8080'')
        (new_client ''s''\<lparr>Tunnels := [tunnel_of ''1'' ''80'' ''8080'']\<rparr>)
        (idle_world\<lparr>listening := [(''0.0.0.0'', ''80'')]\<rparr>)
     = (Some (Error ''close failed''), new_client ''s''\<lparr>Tunnels := [tunnel_of ''1'' ''80'' ''8080'']\<rparr>,
        idle_world\<lparr>listening := [(''0.0.0.0'', ''80'')]\<rparr>)
   \<and> tunnel_Terminate sim (tunnel_of ''1'' ''80'' ''8080'') (idle_world\<lparr>listening := [(''0.0.0.0'', ''80'')]\<rparr>)
     = (None, idle_world)
   \<and> TerminateTunnel sim (tunnel_of ''1'' ''80'' ''8080'')
        (new_client ''s''\<lparr>Tunnels := [tunnel_of ''1'' ''80'' ''8080'']\<rparr>)
        (idle_world\<lparr>listening := [(''0.0.0.0'', ''80'')]\<rparr>)
     = (None, new_client ''s'', idle_world)"
proof -
  let ?t = "tunnel_of ''1'' ''80'' ''8080''"
  let ?c = "new_client ''s''\<lparr>Tunnels := [?t]\<rparr>"
  let ?w = "idle_world\<lparr>listening := [(''0.0.0.0'', ''80'')]\<rparr>"
  have stuck: "tunnel_Terminate sim_stuck ?t ?w = (Some (Error ''close failed''), ?w)"
    by (simp add: sim_stuck_def sim_def)
  have ok: "tunnel_Terminate sim ?t ?w = (None, idle_world)"
    by (simp add: sim_def sim_Terminate_def tunnel_of_def NewTunnel_def remote_to_def idle_world_def)
  from stuck TerminateTunnel_outcomes [of sim_stuck ?t ?w "Error ''close failed''" ?w ?c]
  have a: "TerminateTunnel sim_stuck ?t ?c ?w = (Some (Error ''close failed''), ?c, ?w)"
    by simp
  from ok TerminateTunnel_outcomes [of sim ?t ?w "Error ''x''" idle_world ?c]
  have b: "TerminateTunnel sim ?t ?c ?w = (None, new_client ''s'', idle_world)"
    by (simp add: new_client_def)
  from stuck ok a b show ?thesis by simp
qed

text \<open>
  C2 as stated fails when \<^verbatim>\<open>Terminate\<close> returns an error: the error is returned
  and the tunnel is still in the session's list.
\<close>

theorem TerminateTunnel_error_counterexample:
  "fst (TerminateTunnel sim_stuck (tunnel_of ''1'' ''80'' ''8080'')
          (new_client ''s''\<lparr>Tunnels := [tunnel_of ''1'' ''80'' ''8080'']\<rparr>)
          (idle_world\<lparr>listening := [(''0.0.0.0'', ''80'')]\<rparr>))
     = Some (Error ''close failed'')
   \<and> tunnel_of ''1'' ''80'' ''8080''
       \<in> set (Tunnels (fst (snd (TerminateTunnel sim_stuck (tunnel_of ''1'' ''80'' ''8080'')
          (new_client ''s''\<lparr>Tunnels := [tunnel_of ''1'' ''80'' ''8080'']\<rparr>)
          (idle_world\<lparr>listening := [(''0.0.0.0'', ''80'')]\<rparr>)))))"
  by (simp add: TerminateTunnel_def sim_stuck_def sim_def)

subsection \<open>Starting a tunnel for a remote that has one\<close>

lemma find_by_remote_first:
  "t \<in> set ts \<Longrightarrow> eq t r \<Longrightarrow>
   find_by_remote eq ts r = Some (hd (filter (\<lambda>u. eq u r) ts))"
  by (induction ts) auto

lemma hd_filter_in:
  "t \<in> set ts \<Longrightarrow> P t \<Longrightarrow> hd (filter P ts) \<in> set ts \<and> P (hd (filter P ts))"
proof -
  assume "t \<in> set ts" "P t"
  then have "filter P ts \<noteq> []" by (auto simp: filter_empty_conv)
  then have "hd (filter P ts) \<in> set (filter P ts)" by (rule hd_in_set)
  then show ?thesis by simp
qed

text \<open>
  C4. When a tunnel \<open>t\<close> of the session's list equals the remote, \<^verbatim>\<open>StartTunnel\<close>
  returns an existing tunnel that equals the remote (the first one of the list; \<open>t\<close>
  itself when no other tunnel of the list equals the remote) and no error. The session is
  unchanged, so the ID counter has not moved and the tunnel list is the same, and the
  world is unchanged: no tunnel was started.
\<close>

theorem StartTunnel_existing:
  assumes "t \<in> set (Tunnels c)" and "tunnel_Equals ext t r"
  shows "\<exists>t'. StartTunnel ext r acl c w = (Inr t', c, w)
           \<and> t' = hd (filter (\<lambda>u. tunnel_Equals ext u r) (Tunnels c))
           \<and> t' \<in> set (Tunnels c) \<and> tunnel_Equals ext t' r
           \<and> ((\<forall>u \<in> set (Tunnels c). tunnel_Equals ext u r \<longrightarrow> u = t) \<longrightarrow> t' = t)
           \<and> tunnelIDAutoIncrement (fst (snd (StartTunnel ext r acl c w))) = tunnelIDAutoIncrement c
           \<and> Tunnels (fst (snd (StartTunnel ext r acl c w))) = Tunnels c"
proof -
  let ?t' = "hd (filter (\<lambda>u. tunnel_Equals ext u r) (Tunnels c))"
  have found: "FindTunnelByRemote ext c r = Some ?t'"
    unfolding FindTunnelByRemote_def using assms by (rule find_by_remote_first)
  have run: "StartTunnel ext r acl c w = (Inr ?t', c, w)"
    by (simp add: StartTunnel_def found)
  have mem: "?t' \<in> set (Tunnels c) \<and> tunnel_Equals ext ?t' r"
    using assms by (rule hd_filter_in)
  from run mem show ?thesis by auto
qed

theorem StartTunnel_existing_witness:
  "tunnel_of ''2'' ''81'' ''8081''
     \<in> set (Tunnels (new_client ''s''\<lparr>Tunnels := [tunnel_of ''1'' ''80'' ''8080'', tunnel_of ''2'' ''81'' ''8081''],
                                        tunnelIDAutoIncrement := 2\<rparr>))
   \<and> tunnel_Equals sim (tunnel_of ''2'' ''81'' ''8081'') (remote_to ''81'' ''8081'')
   \<and> StartTunnel sim (remote_to ''81'' ''8081'') None
       (new_client ''s''\<lparr>Tunnels := [tunnel_of ''1'' ''80'' ''8080'', tunnel_of ''2'' ''81'' ''8081''],
                          tunnelIDAutoIncrement := 2\<rparr>)
       (idle_world\<lparr>listening := [(''0.0.0.0'', ''80''), (''0.0.0.0'', ''81'')]\<rparr>)
     = (Inr (tunnel_of ''2'' ''81'' ''8081''),
        new_client ''s''\<lparr>Tunnels := [tunnel_of ''1'' ''80'' ''8080'', tunnel_of ''2'' ''81'' ''8081''],
                          tunnelIDAutoIncrement := 2\<rparr>,
        idle_world\<lparr>listening := [(''0.0.0.0'', ''80''), (''0.0.0.0'', ''81'')]\<rparr>)"
proof -
  let ?t = "tunnel_of ''2'' ''81'' ''8081''"
  let ?c = "new_client ''s''\<lparr>Tunnels := [tunnel_of ''1'' ''80'' ''8080'', ?t], tunnelIDAutoIncrement := 2\<rparr>"
  let ?w = "idle_world\<lparr>listening := [(''0.0.0.0'', ''80''), (''0.0.0.0'', ''81'')]\<rparr>"
  have h1: "?t \<in> set (Tunnels ?c)" by simp
  have h2: "tunnel_Equals sim ?t (remote_to ''81'' ''8081'')"
    by (simp add: sim_def sim_Equals_def tunnel_of_def NewTunnel_def)
  have h3: "hd (filter (\<lambda>u. tunnel_Equals sim u (remote_to ''81'' ''8081'')) (Tunnels ?c)) = ?t"
    by (simp add: sim_def sim_Equals_def tunnel_of_def NewTunnel_def remote_to_def)
  from StartTunnel_existing [OF h1 h2, of None ?w] h3
  have "StartTunnel sim (remote_to ''81'' ''8081'') None ?c ?w = (Inr ?t, ?c, ?w)"
    by auto
  with h1 h2 show ?thesis by simp
qed

section \<open>Evaluating the examples\<close>

lemmas sim_defs = sim_def sim_Refresh_def sim_GetRandomPort_def sim_ParseTunnelACL_def
  sim_Start_def sim_Terminate_def sim_Equals_def sim_IsLocalSpecified_def idle_world_def
  remote_to_def new_client_def NewTunnel_def tunnel_of_def

lemma FormatInt10_1: "FormatInt10 1 = ''1''"
  by (simp add: FormatInt10_def Itoa_def udecimal.simps digit_char_def)

lemma FormatInt10_2: "FormatInt10 2 = ''2''"
  by (simp add: FormatInt10_def Itoa_def udecimal.simps digit_char_def)

lemma Itoa_20000: "Itoa 20000 = ''20000''"
  by (simp add: Itoa_def udecimal.simps digit_char_def)

lemmas run_defs = StartTunnel_def FindTunnelByRemote_def generateNewTunnelID_def Let_def
  FormatInt10_1 FormatInt10_2 Itoa_20000

section \<open>Properties of the session service\<close>

subsection \<open>Starting the tunnels of a request\<close>

lemma tunnels_loop_spec:
  "tunnels_loop ext tunnels remotes session w =
     (case spec_remotes ext remotes session w of
        (Inl err, rs, c, w') \<Rightarrow> (Inl err, rs, c, w')
      | (Inr ts, rs, c, w') \<Rightarrow> (Inr (tunnels @ ts), rs, c, w'))"
proof (induction remotes arbitrary: tunnels session w)
  case Nil
  show ?case by simp
next
  case (Cons remote others)
  show ?case
    by (simp add: Cons.IH spec_remote_step_def assign_local_def Let_def
        split: prod.splits sum.splits option.splits)
qed

lemma StartSessionTunnels_spec:
  "StartSessionTunnels ext session remotes w = spec_StartSessionTunnels ext session remotes w"
  by (simp add: StartSessionTunnels_def spec_StartSessionTunnels_def tunnels_loop_spec
      split: prod.splits sum.splits option.splits)

lemma spec_remotes_lengths:
  "spec_remotes ext remotes session w = (res, rs, c, w') \<Longrightarrow>
   length rs = length remotes \<and> (\<forall>ts. res = Inr ts \<longrightarrow> length ts = length remotes)"
  by (induction remotes arbitrary: res rs c w' session w)
     (auto split: prod.splits sum.splits)

lemma spec_remotes_fail_at:
  "spec_remotes ext front session w = (Inr ts, front', c2, w2) \<Longrightarrow>
   spec_remote_step ext r c2 w2 = (Inl err, r', c3, w3) \<Longrightarrow>
   spec_remotes ext (front @ r # later) session w = (Inl err, front' @ r' # later, c3, w3)"
  by (induction front arbitrary: ts front' session w)
     (auto split: prod.splits sum.splits)

lemma StartSessionTunnels_ok_lengths:
  assumes h: "StartSessionTunnels ext session remotes w = (Inr tsx, rs, cx, wx)"
  shows "length tsx = length remotes \<and> length rs = length remotes"
proof -
  obtain e v where r: "pd_Refresh ext w = (e, v)"
    by (cases "pd_Refresh ext w")
  show ?thesis
  proof (cases e)
    case None
    with h r have "spec_remotes ext remotes session v = (Inr tsx, rs, cx, wx)"
      by (simp add: StartSessionTunnels_spec spec_StartSessionTunnels_def)
    from spec_remotes_lengths [OF this] show ?thesis by simp
  next
    case (Some err)
    with h r show ?thesis by (simp add: StartSessionTunnels_def)
  qed
qed

text \<open>
  C7. \<^verbatim>\<open>StartSessionTunnels\<close> does what the spec says: it is equal to the run written
  after the spec's words (\<open>spec_StartSessionTunnels\<close>: \<^verbatim>\<open>Refresh\<close> first, then the
  remotes in order, each through \<open>spec_remote_step\<close>, the tunnels collected in order).
  In particular: an error of \<^verbatim>\<open>Refresh\<close> is returned at once, with the remotes, the
  session and the rest of the world untouched; when the remotes \<open>front\<close> have gone
  through and the step of the next remote \<open>r\<close> fails, that error is returned with the
  session and the world as that step left them and the remotes \<open>later\<close> after it as they
  were; a run without error returns one tunnel for each remote.
\<close>

theorem StartSessionTunnels_as_specified:
  "StartSessionTunnels ext session remotes w = spec_StartSessionTunnels ext session remotes w
   \<and> (pd_Refresh ext w = (Some err, wr) \<longrightarrow>
        StartSessionTunnels ext session remotes w = (Inl err, remotes, session, wr))
   \<and> (pd_Refresh ext w = (None, wr)
        \<and> spec_remotes ext front session wr = (Inr ts, front', ca, wa)
        \<and> spec_remote_step ext r ca wa = (Inl err, r', cb, wb) \<longrightarrow>
        StartSessionTunnels ext session (front @ r # later) w
          = (Inl err, front' @ r' # later, cb, wb))
   \<and> (StartSessionTunnels ext session remotes w = (Inr tsx, rs, cx, wx) \<longrightarrow>
        length tsx = length remotes \<and> length rs = length remotes)"
proof (intro conjI impI)
  show "StartSessionTunnels ext session remotes w = spec_StartSessionTunnels ext session remotes w"
    by (rule StartSessionTunnels_spec)
next
  assume "pd_Refresh ext w = (Some err, wr)"
  then show "StartSessionTunnels ext session remotes w = (Inl err, remotes, session, wr)"
    by (simp add: StartSessionTunnels_def)
next
  assume a: "pd_Refresh ext w = (None, wr)
        \<and> spec_remotes ext front session wr = (Inr ts, front', ca, wa)
        \<and> spec_remote_step ext r ca wa = (Inl err, r', cb, wb)"
  then have p: "spec_remotes ext front session wr = (Inr ts, front', ca, wa)"
    and q: "spec_remote_step ext r ca wa = (Inl err, r', cb, wb)"
    and f: "pd_Refresh ext w = (None, wr)"
    by simp_all
  have "spec_remotes ext (front @ r # later) session wr = (Inl err, front' @ r' # later, cb, wb)"
    by (rule spec_remotes_fail_at [OF p q])
  with f show "StartSessionTunnels ext session (front @ r # later) w
          = (Inl err, front' @ r' # later, cb, wb)"
    by (simp only: StartSessionTunnels_spec spec_StartSessionTunnels_def prod.case option.case)
next
  assume "StartSessionTunnels ext session remotes w = (Inr tsx, rs, cx, wx)"
  then show "length tsx = length remotes"
    by (rule StartSessionTunnels_ok_lengths [THEN conjunct1])
next
  assume "StartSessionTunnels ext session remotes w = (Inr tsx, rs, cx, wx)"
  then show "length rs = length remotes"
    by (rule StartSessionTunnels_ok_lengths [THEN conjunct2])
qed

theorem StartSessionTunnels_as_specified_witness:
  "StartSessionTunnels sim (new_client ''s'') [remote_to [] ''22'', remote_to ''3000'' ''23''] idle_world
     = (Inr [NewTunnel ''1'' ((remote_to ''20000'' ''22'')\<lparr>LocalPortRandom := True\<rparr>) None,
             tunnel_of ''2'' ''3000'' ''23''],
        [(remote_to ''20000'' ''22'')\<lparr>LocalPortRandom := True\<rparr>, remote_to ''3000'' ''23''],
        new_client ''s''\<lparr>Tunnels := [NewTunnel ''1'' ((remote_to ''20000'' ''22'')\<lparr>LocalPortRandom := True\<rparr>) None,
                                      tunnel_of ''2'' ''3000'' ''23''],
                          tunnelIDAutoIncrement := 2\<rparr>,
        idle_world\<lparr>listening := [(''0.0.0.0'', ''20000''), (''0.0.0.0'', ''3000'')],
                    pool := [20001, 20002]\<rparr>)
   \<and> StartSessionTunnels sim (new_client ''s'') [remote_to [] ''22''] (idle_world\<lparr>os_ok := False\<rparr>)
     = (Inl (Error ''OSQueryError''), [remote_to [] ''22''], new_client ''s'', idle_world\<lparr>os_ok := False\<rparr>)
   \<and> StartSessionTunnels sim (new_client ''s'')
        ([remote_to [] ''22''] @ remote_to ''20000'' ''23'' # [remote_to [] ''24'']) idle_world
     = (Inl (Error ''BindError''),
        [(remote_to ''20000'' ''22'')\<lparr>LocalPortRandom := True\<rparr>] @ remote_to ''20000'' ''23'' # [remote_to [] ''24''],
        new_client ''s''\<lparr>Tunnels := [NewTunnel ''1'' ((remote_to ''20000'' ''22'')\<lparr>LocalPortRandom := True\<rparr>) None],
                          tunnelIDAutoIncrement := 2\<rparr>,
        idle_world\<lparr>listening := [(''0.0.0.0'', ''20000'')], pool := [20001, 20002]\<rparr>)"
proof -
  let ?r1 = "(remote_to ''20000'' ''22'')\<lparr>LocalPortRandom := True\<rparr>"
  let ?c1 = "new_client ''s''\<lparr>Tunnels := [NewTunnel ''1'' ?r1 None], tunnelIDAutoIncrement := 1\<rparr>"
  let ?c2 = "new_client ''s''\<lparr>Tunnels := [NewTunnel ''1'' ?r1 None], tunnelIDAutoIncrement := 2\<rparr>"
  let ?w1 = "idle_world\<lparr>listening := [(''0.0.0.0'', ''20000'')], pool := [20001, 20002]\<rparr>"
  have ok: "spec_StartSessionTunnels sim (new_client ''s'') [remote_to [] ''22'', remote_to ''3000'' ''23''] idle_world
     = (Inr [NewTunnel ''1'' ?r1 None, tunnel_of ''2'' ''3000'' ''23''],
        [?r1, remote_to ''3000'' ''23''],
        new_client ''s''\<lparr>Tunnels := [NewTunnel ''1'' ?r1 None, tunnel_of ''2'' ''3000'' ''23''],
                          tunnelIDAutoIncrement := 2\<rparr>,
        idle_world\<lparr>listening := [(''0.0.0.0'', ''20000''), (''0.0.0.0'', ''3000'')],
                    pool := [20001, 20002]\<rparr>)"
    by (simp add: spec_StartSessionTunnels_def spec_remote_step_def sim_defs run_defs)
  have refresh_fails: "pd_Refresh sim (idle_world\<lparr>os_ok := False\<rparr>)
      = (Some (Error ''OSQueryError''), idle_world\<lparr>os_ok := False\<rparr>)"
    by (simp add: sim_defs)
  have refresh_ok: "pd_Refresh sim idle_world = (None, idle_world)"
    by (simp add: sim_defs)
  have front: "spec_remotes sim [remote_to [] ''22''] (new_client ''s'') idle_world
      = (Inr [NewTunnel ''1'' ?r1 None], [?r1], ?c1, ?w1)"
    by (simp add: spec_remote_step_def sim_defs run_defs)
  have step: "spec_remote_step sim (remote_to ''20000'' ''23'') ?c1 ?w1
      = (Inl (Error ''BindError''), remote_to ''20000'' ''23'', ?c2, ?w1)"
    by (simp add: spec_remote_step_def sim_defs run_defs)
  note thm1 = StartSessionTunnels_as_specified [where ext = sim and session = "new_client ''s''"
      and remotes = "[remote_to [] ''22'', remote_to ''3000'' ''23'']" and w = idle_world]
  note thm2 = StartSessionTunnels_as_specified [where ext = sim and session = "new_client ''s''"
      and remotes = "[remote_to [] ''22'']" and w = "idle_world\<lparr>os_ok := False\<rparr>"
      and err = "Error ''OSQueryError''" and wr = "idle_world\<lparr>os_ok := False\<rparr>"]
  note thm3 = StartSessionTunnels_as_specified [where ext = sim and session = "new_client ''s''"
      and w = idle_world and wr = idle_world and err = "Error ''BindError''"
      and front = "[remote_to [] ''22'']" and ts = "[NewTunnel ''1'' ?r1 None]" and front' = "[?r1]"
      and ca = ?c1 and wa = ?w1 and r = "remote_to ''20000'' ''23''" and r' = "remote_to ''20000'' ''23''"
      and cb = ?c2 and wb = ?w1 and later = "[remote_to [] ''24'']"]
  have a: "StartSessionTunnels sim (new_client ''s'') [remote_to [] ''22'', remote_to ''3000'' ''23''] idle_world
     = (Inr [NewTunnel ''1'' ?r1 None, tunnel_of ''2'' ''3000'' ''23''],
        [?r1, remote_to ''3000'' ''23''],
        new_client ''s''\<lparr>Tunnels := [NewTunnel ''1'' ?r1 None, tunnel_of ''2'' ''3000'' ''23''],
                          tunnelIDAutoIncrement := 2\<rparr>,
        idle_world\<lparr>listening := [(''0.0.0.0'', ''20000''), (''0.0.0.0'', ''3000'')],
                    pool := [20001, 20002]\<rparr>)"
    unfolding thm1 [THEN conjunct1] by (rule ok)
  have b: "StartSessionTunnels sim (new_client ''s'') [remote_to [] ''22''] (idle_world\<lparr>os_ok := False\<rparr>)
     = (Inl (Error ''OSQueryError''), [remote_to [] ''22''], new_client ''s'', idle_world\<lparr>os_ok := False\<rparr>)"
    by (rule thm2 [THEN conjunct2, THEN conjunct1, THEN mp, OF refresh_fails])
  have c: "StartSessionTunnels sim (new_client ''s'')
        ([remote_to [] ''22''] @ remote_to ''20000'' ''23'' # [remote_to [] ''24'']) idle_world
     = (Inl (Error ''BindError''), [?r1] @ remote_to ''20000'' ''23'' # [remote_to [] ''24''], ?c2, ?w1)"
    by (rule thm3 [THEN conjunct2, THEN conjunct2, THEN conjunct1, THEN mp])
       (intro conjI refresh_ok front step)
  from a b c show ?thesis by (intro conjI)
qed



subsection \<open>Starting a client session\<close>

text \<open>
  C1, as the code has it. When \<^verbatim>\<open>StartSessionTunnels\<close> returns an error,
  \<^verbatim>\<open>StartClientSession\<close> returns that error and the session is not saved: the
  repository is unchanged. Nothing else is done: the world is as
  \<^verbatim>\<open>StartSessionTunnels\<close> left it, so the tunnels started during this attempt are not
  terminated by \<^verbatim>\<open>StartClientSession\<close>.
\<close>

theorem StartClientSession_tunnels_error:
  assumes "StartSessionTunnels ext (new_session sid addr req) (req_Remotes req) w
             = (Inl err, remotes1, session1, w1)"
  shows "StartClientSession ext sid addr req repo w = (Inl err, remotes1, repo, w1)"
  using assms by (simp add: StartClientSession_def)

theorem StartClientSession_tunnels_error_witness:
  "StartSessionTunnels sim (new_session ''s'' ''10.0.0.1:5000'' (request_for [remote_to ''2000'' ''22'', remote_to ''2001'' ''23'', remote_to [] ''24'']))
      (req_Remotes (request_for [remote_to ''2000'' ''22'', remote_to ''2001'' ''23'', remote_to [] ''24'']))
      (idle_world\<lparr>listening := [(''0.0.0.0'', ''2001'')]\<rparr>)
     = (Inl (Error ''BindError''),
        [remote_to ''2000'' ''22'', remote_to ''2001'' ''23'', remote_to [] ''24''],
        new_session ''s'' ''10.0.0.1:5000'' (request_for [])
          \<lparr>Tunnels := [tunnel_of ''1'' ''2000'' ''22''], tunnelIDAutoIncrement := 2\<rparr>,
        idle_world\<lparr>listening := [(''0.0.0.0'', ''2001''), (''0.0.0.0'', ''2000'')], busy := [''2001'']\<rparr>)
   \<and> StartClientSession sim ''s'' ''10.0.0.1:5000''
        (request_for [remote_to ''2000'' ''22'', remote_to ''2001'' ''23'', remote_to [] ''24''])
        empty_repo (idle_world\<lparr>listening := [(''0.0.0.0'', ''2001'')]\<rparr>)
     = (Inl (Error ''BindError''),
        [remote_to ''2000'' ''22'', remote_to ''2001'' ''23'', remote_to [] ''24''],
        empty_repo,
        idle_world\<lparr>listening := [(''0.0.0.0'', ''2001''), (''0.0.0.0'', ''2000'')], busy := [''2001'']\<rparr>)"
proof -
  let ?req = "request_for [remote_to ''2000'' ''22'', remote_to ''2001'' ''23'', remote_to [] ''24'']"
  let ?w = "idle_world\<lparr>listening := [(''0.0.0.0'', ''2001'')]\<rparr>"
  have run: "StartSessionTunnels sim (new_session ''s'' ''10.0.0.1:5000'' ?req) (req_Remotes ?req) ?w
     = (Inl (Error ''BindError''),
        [remote_to ''2000'' ''22'', remote_to ''2001'' ''23'', remote_to [] ''24''],
        new_session ''s'' ''10.0.0.1:5000'' (request_for [])
          \<lparr>Tunnels := [tunnel_of ''1'' ''2000'' ''22''], tunnelIDAutoIncrement := 2\<rparr>,
        idle_world\<lparr>listening := [(''0.0.0.0'', ''2001''), (''0.0.0.0'', ''2000'')], busy := [''2001'']\<rparr>)"
    by (simp add: StartSessionTunnels_def assign_local_def new_session_def request_for_def
        sim_defs run_defs)
  from StartClientSession_tunnels_error [OF run, of empty_repo] run
  show ?thesis by (intro conjI)
qed

text \<open>
  C1 as stated fails. A request asks for the local ports 2000 and 2001, and 2001 is
  already bound on the host: the first tunnel is started and binds port 2000, the second
  fails to bind. \<^verbatim>\<open>StartClientSession\<close> returns the error and saves no session, and
  the listener on port 2000, which was not there before, is still bound afterwards: the
  tunnel started during the attempt has not been terminated.
\<close>

theorem StartClientSession_leak_counterexample:
  "fst (StartClientSession sim ''s'' ''10.0.0.1:5000''
          (request_for [remote_to ''2000'' ''22'', remote_to ''2001'' ''23''])
          empty_repo (idle_world\<lparr>listening := [(''0.0.0.0'', ''2001'')]\<rparr>))
     = Inl (Error ''BindError'')
   \<and> (''0.0.0.0'', ''2000'') \<notin> set (listening (idle_world\<lparr>listening := [(''0.0.0.0'', ''2001'')]\<rparr>))
   \<and> (''0.0.0.0'', ''2000'')
       \<in> set (listening (snd (snd (snd (StartClientSession sim ''s'' ''10.0.0.1:5000''
          (request_for [remote_to ''2000'' ''22'', remote_to ''2001'' ''23''])
          empty_repo (idle_world\<lparr>listening := [(''0.0.0.0'', ''2001'')]\<rparr>))))))"
  by (simp add: StartClientSession_def StartSessionTunnels_def assign_local_def new_session_def
      request_for_def sim_defs run_defs)

subsection \<open>Terminating a session\<close>

text \<open>
  C8. Without a retention policy (\<^verbatim>\<open>KeepLostClients\<close> is nil)
  \<^verbatim>\<open>SessionService.Terminate\<close> deletes the session from the repository: afterwards the
  repository has no entry under its ID. With a retention policy it sets the session's
  disconnected timestamp to the current time and saves the session: afterwards the
  repository holds the session under its ID, with that timestamp, its connection state is
  \<open>Disconnected\<close> and \<^verbatim>\<open>GetActiveByID\<close> does not return it. In both cases no error is
  returned and the other entries of the repository are as they were.
\<close>

theorem Terminate_by_retention:
  "(KeepLostClients repo = None \<longrightarrow>
      (\<exists>repo1. Terminate now s repo = (None, s, repo1)
         \<and> repo1 = snd (Delete s repo)
         \<and> GetByID repo1 (ID s) = None
         \<and> (\<forall>i. i \<noteq> ID s \<longrightarrow> GetByID repo1 i = GetByID repo i)))
   \<and> (KeepLostClients repo \<noteq> None \<longrightarrow>
      (\<exists>repo1. Terminate now s repo = (None, s\<lparr>DisconnectedAt := Some now\<rparr>, repo1)
         \<and> repo1 = snd (Save (s\<lparr>DisconnectedAt := Some now\<rparr>) repo)
         \<and> GetByID repo1 (ID s) = Some (s\<lparr>DisconnectedAt := Some now\<rparr>)
         \<and> ConnectionState (s\<lparr>DisconnectedAt := Some now\<rparr>) = Disconnected
         \<and> GetActiveByID repo1 (ID s) = None
         \<and> (\<forall>i. i \<noteq> ID s \<longrightarrow> GetByID repo1 i = GetByID repo i)))"
  by (simp add: Terminate_def Delete_def Save_def GetByID_def GetActiveByID_def
      ConnectionState_def Let_def)

theorem Terminate_by_retention_witness:
  "KeepLostClients (empty_repo\<lparr>sessions := [''s'' \<mapsto> new_client ''s'']\<rparr>) = None
   \<and> Terminate 1000 (new_client ''s'') (empty_repo\<lparr>sessions := [''s'' \<mapsto> new_client ''s'']\<rparr>)
       = (None, new_client ''s'', empty_repo)
   \<and> KeepLostClients (empty_repo\<lparr>sessions := [''s'' \<mapsto> new_client ''s''], KeepLostClients := Some 3600\<rparr>) \<noteq> None
   \<and> Terminate 1000 (new_client ''s'')
        (empty_repo\<lparr>sessions := [''s'' \<mapsto> new_client ''s''], KeepLostClients := Some 3600\<rparr>)
       = (None, new_client ''s''\<lparr>DisconnectedAt := Some 1000\<rparr>,
          empty_repo\<lparr>sessions := [''s'' \<mapsto> new_client ''s''\<lparr>DisconnectedAt := Some 1000\<rparr>],
                      KeepLostClients := Some 3600\<rparr>)
   \<and> GetActiveByID (empty_repo\<lparr>sessions := [''s'' \<mapsto> new_client ''s''\<lparr>DisconnectedAt := Some 1000\<rparr>],
                      KeepLostClients := Some 3600\<rparr>) ''s'' = None"
  using Terminate_by_retention [of "empty_repo\<lparr>sessions := [''s'' \<mapsto> new_client ''s'']\<rparr>" 1000 "new_client ''s''"]
    Terminate_by_retention [of "empty_repo\<lparr>sessions := [''s'' \<mapsto> new_client ''s''], KeepLostClients := Some 3600\<rparr>"
      1000 "new_client ''s''"]
  by (simp add: empty_repo_def new_client_def Delete_def Save_def)

subsection \<open>Belonging to a client group\<close>

lemma MatchesOneOf_iff: "MatchesOneOf m p vals \<longleftrightarrow> (specified p \<longrightarrow> satisfied m p vals)"
  by (auto simp: MatchesOneOf_def specified_def satisfied_def list_ex_iff)

text \<open>
  C9. A group with no parameters at all has no member. Otherwise a session belongs to the
  group if and only if every specified parameter of the group is satisfied by the session's
  corresponding field: one of the parameter's patterns matches the field's value, or, for
  the repeated fields IPv4, IPv6 and tags, one of the field's elements.
\<close>

theorem BelongsTo_iff_all_specified:
  "(HasNoParams (Params g) \<longrightarrow> \<not> BelongsTo m c g)
   \<and> (\<not> HasNoParams (Params g) \<longrightarrow>
       (BelongsTo m c g \<longleftrightarrow>
          (specified (Params_ClientID (Params g)) \<longrightarrow> satisfied m (Params_ClientID (Params g)) [ID c])
        \<and> (specified (Params_Name (Params g)) \<longrightarrow> satisfied m (Params_Name (Params g)) [Name c])
        \<and> (specified (Params_OS (Params g)) \<longrightarrow> satisfied m (Params_OS (Params g)) [OS c])
        \<and> (specified (Params_OSArch (Params g)) \<longrightarrow> satisfied m (Params_OSArch (Params g)) [OSArch c])
        \<and> (specified (Params_OSFamily (Params g)) \<longrightarrow> satisfied m (Params_OSFamily (Params g)) [OSFamily c])
        \<and> (specified (Params_OSKernel (Params g)) \<longrightarrow> satisfied m (Params_OSKernel (Params g)) [OSKernel c])
        \<and> (specified (Params_Hostname (Params g)) \<longrightarrow> satisfied m (Params_Hostname (Params g)) [Hostname c])
        \<and> (specified (Params_IPv4 (Params g)) \<longrightarrow> satisfied m (Params_IPv4 (Params g)) (IPv4 c))
        \<and> (specified (Params_IPv6 (Params g)) \<longrightarrow> satisfied m (Params_IPv6 (Params g)) (IPv6 c))
        \<and> (specified (Params_Tag (Params g)) \<longrightarrow> satisfied m (Params_Tag (Params g)) (Tags c))
        \<and> (specified (Params_Version (Params g)) \<longrightarrow> satisfied m (Params_Version (Params g)) [Version c])
        \<and> (specified (Params_Address (Params g)) \<longrightarrow> satisfied m (Params_Address (Params g)) [Address c])
        \<and> (specified (Params_ClientAuthID (Params g)) \<longrightarrow>
              satisfied m (Params_ClientAuthID (Params g)) [ClientAuthID c])))"
  unfolding BelongsTo_def Let_def MatchesOneOf_iff by simp

theorem BelongsTo_iff_all_specified_witness:
  "HasNoParams (Params (only_name []))
   \<and> \<not> BelongsTo (=) (new_client ''s''\<lparr>Name := ''db1''\<rparr>) (only_name [])
   \<and> \<not> HasNoParams (Params (only_name [''web1'', ''db1'']))
   \<and> BelongsTo (=) (new_client ''s''\<lparr>Name := ''db1''\<rparr>) (only_name [''web1'', ''db1''])
   \<and> \<not> BelongsTo (=) (new_client ''s''\<lparr>Name := ''db2''\<rparr>) (only_name [''web1'', ''db1''])"
  using BelongsTo_iff_all_specified [of "only_name []" "(=)" "new_client ''s''\<lparr>Name := ''db1''\<rparr>"]
    BelongsTo_iff_all_specified [of "only_name [''web1'', ''db1'']" "(=)" "new_client ''s''\<lparr>Name := ''db1''\<rparr>"]
    BelongsTo_iff_all_specified [of "only_name [''web1'', ''db1'']" "(=)" "new_client ''s''\<lparr>Name := ''db2''\<rparr>"]
  by (simp add: only_name_def HasNoParams_def specified_def satisfied_def new_client_def)

section \<open>Tunnel IDs\<close>

subsection \<open>Decimal strings read back\<close>

lemma digit_val_digit_char: "d < 10 \<Longrightarrow> digit_val (digit_char d) = Some d"
proof -
  assume "d < 10"
  then have "d \<in> {0, 1, 2, 3, 4, 5, 6, 7, 8, 9}" by auto
  then show ?thesis
    by (auto simp: digit_val_def digit_char_def)
qed

lemma digit_char_not_minus: "d < 10 \<Longrightarrow> digit_char d \<noteq> CHR ''-''"
proof -
  assume "d < 10"
  then have "d \<in> {0, 1, 2, 3, 4, 5, 6, 7, 8, 9}" by auto
  then show ?thesis
    by (auto simp: digit_char_def)
qed

lemma parse_digits_append:
  "parse_digits acc (xs @ ys) =
     (case parse_digits acc xs of None \<Rightarrow> None | Some a \<Rightarrow> parse_digits a ys)"
  by (induction xs arbitrary: acc) (auto split: option.splits)

lemma parse_digits_udecimal: "parse_digits 0 (udecimal n) = Some n"
proof (induction n rule: udecimal.induct)
  case (1 n)
  show ?case
  proof (cases "n < 10")
    case True
    then show ?thesis
      by (simp add: udecimal.simps [of n] digit_val_digit_char)
  next
    case False
    then have ih: "parse_digits 0 (udecimal (n div 10)) = Some (n div 10)"
      using "1.IH" by simp
    have "n mod 10 < 10" by simp
    then have dv: "digit_val (digit_char (n mod 10)) = Some (n mod 10)"
      by (rule digit_val_digit_char)
    from False show ?thesis
      by (simp add: udecimal.simps [of n] parse_digits_append ih dv)
  qed
qed

lemma udecimal_hd: "\<exists>d s. d < 10 \<and> udecimal n = digit_char d # s"
proof (induction n rule: udecimal.induct)
  case (1 n)
  show ?case
  proof (cases "n < 10")
    case True
    then show ?thesis by (auto simp: udecimal.simps [of n])
  next
    case False
    then obtain d s where "d < 10" "udecimal (n div 10) = digit_char d # s"
      using "1.IH" by auto
    with False show ?thesis by (auto simp: udecimal.simps [of n])
  qed
qed

lemma Atoi_Itoa: "Atoi (Itoa i) = Some i"
proof (cases "i < 0")
  case True
  obtain d s where "udecimal (nat (- i)) = digit_char d # s"
    using udecimal_hd by blast
  then have "udecimal (nat (- i)) \<noteq> []" by simp
  with True show ?thesis
    by (simp add: Atoi_def Itoa_def parse_digits_udecimal)
next
  case False
  obtain d s where ds: "d < 10" "udecimal (nat i) = digit_char d # s"
    using udecimal_hd by blast
  have "parse_digits 0 (digit_char d # s) = Some (nat i)"
    using parse_digits_udecimal [of "nat i"] ds by simp
  with False ds show ?thesis
    by (simp add: Atoi_def Itoa_def digit_char_not_minus)
qed

lemma sint_succ:
  fixes n :: "64 word"
  assumes "sint n < 9223372036854775807"
  shows "sint (n + 1) = sint n + 1"
proof -
  have lo: "- (2 ^ 63) \<le> sint n" using sint_ge [of n] by simp
  have "sint (n + 1) = signed_take_bit (LENGTH(64) - 1) (sint n + sint (1 :: 64 word))"
    by (simp only: sint_word_ariths)
  also have "\<dots> = signed_take_bit 63 (sint n + 1)" by simp
  also have "\<dots> = sint n + 1"
    using assms lo by (intro signed_take_bit_int_eq_self) auto
  finally show ?thesis .
qed


subsection \<open>The invariant\<close>

lemma tunnel_int_NewTunnel: "tunnel_int (NewTunnel (FormatInt10 n) r acl) = Some (sint n)"
  by (simp add: tunnel_int_def NewTunnel_def FormatInt10_def Atoi_Itoa)

lemma id_allocated_mono:
  "id_allocated n t \<Longrightarrow> sint n \<le> sint m \<Longrightarrow> id_allocated m t"
  by (auto simp: id_allocated_def split: option.splits)

lemma id_allocated_before:
  "id_allocated n t \<Longrightarrow> tunnel_int u = Some y \<Longrightarrow> sint n < y \<Longrightarrow> id_before t u"
  by (auto simp: id_allocated_def id_before_def split: option.splits)

lemma StartTunnel_new:
  assumes "FindTunnelByRemote ext c r = None"
  shows "StartTunnel ext r acl c w =
     (case tunnel_Start ext (NewTunnel (FormatInt10 (tunnelIDAutoIncrement c + 1)) r acl) w of
        (Some err, w1) \<Rightarrow> (Inl err, c\<lparr>tunnelIDAutoIncrement := tunnelIDAutoIncrement c + 1\<rparr>, w1)
      | (None, w1) \<Rightarrow>
          (Inr (NewTunnel (FormatInt10 (tunnelIDAutoIncrement c + 1)) r acl),
           c\<lparr>tunnelIDAutoIncrement := tunnelIDAutoIncrement c + 1,
              Tunnels := Tunnels c @ [NewTunnel (FormatInt10 (tunnelIDAutoIncrement c + 1)) r acl]\<rparr>,
           w1))"
  using assms
  by (simp add: StartTunnel_def generateNewTunnelID_def Let_def split: prod.splits option.splits)

lemma StartTunnel_found:
  assumes "FindTunnelByRemote ext c r = Some t"
  shows "StartTunnel ext r acl c w = (Inr t, c, w)"
  using assms by (simp add: StartTunnel_def)

lemma ids_increasing_consume:
  assumes inv: "ids_increasing c" and bound: "sint (tunnelIDAutoIncrement c) < 9223372036854775807"
  shows "ids_increasing (c\<lparr>tunnelIDAutoIncrement := tunnelIDAutoIncrement c + 1\<rparr>)"
proof -
  have s: "sint (tunnelIDAutoIncrement c + 1) = sint (tunnelIDAutoIncrement c) + 1"
    using bound by (rule sint_succ)
  have "list_all (id_allocated (tunnelIDAutoIncrement c + 1)) (Tunnels c)"
    using inv s by (auto simp: ids_increasing_def list_all_iff intro: id_allocated_mono)
  with inv s show ?thesis by (simp add: ids_increasing_def)
qed

lemma ids_increasing_append:
  assumes inv: "ids_increasing c" and bound: "sint (tunnelIDAutoIncrement c) < 9223372036854775807"
  shows "ids_increasing (c\<lparr>tunnelIDAutoIncrement := tunnelIDAutoIncrement c + 1,
           Tunnels := Tunnels c @ [NewTunnel (FormatInt10 (tunnelIDAutoIncrement c + 1)) r acl]\<rparr>)"
proof -
  let ?n = "tunnelIDAutoIncrement c"
  let ?t = "NewTunnel (FormatInt10 (?n + 1)) r acl"
  have s: "sint (?n + 1) = sint ?n + 1"
    using bound by (rule sint_succ)
  have ti: "tunnel_int ?t = Some (sint ?n + 1)"
    by (simp add: tunnel_int_NewTunnel s)
  have old: "list_all (id_allocated (?n + 1)) (Tunnels c)"
    using inv s by (auto simp: ids_increasing_def list_all_iff intro: id_allocated_mono)
  have new: "id_allocated (?n + 1) ?t"
    using inv s ti by (simp add: id_allocated_def ids_increasing_def)
  have before: "\<forall>x \<in> set (Tunnels c). id_before x ?t"
    using inv ti by (auto simp: ids_increasing_def list_all_iff intro: id_allocated_before)
  from inv s old new before show ?thesis
    by (simp add: ids_increasing_def sorted_wrt_append)
qed

lemma ids_increasing_StartTunnel:
  assumes inv: "ids_increasing c" and bound: "sint (tunnelIDAutoIncrement c) < 9223372036854775807"
    and run: "StartTunnel ext r acl c w = (res, c', w')"
  shows "ids_increasing c'"
proof (cases "FindTunnelByRemote ext c r")
  case (Some t)
  with run show ?thesis using inv by (simp add: StartTunnel_found)
next
  case None
  obtain e w1 where st: "tunnel_Start ext (NewTunnel (FormatInt10 (tunnelIDAutoIncrement c + 1)) r acl) w = (e, w1)"
    by (cases "tunnel_Start ext (NewTunnel (FormatInt10 (tunnelIDAutoIncrement c + 1)) r acl) w")
  show ?thesis
  proof (cases e)
    case None
    with run st \<open>FindTunnelByRemote ext c r = None\<close>
    have "c' = c\<lparr>tunnelIDAutoIncrement := tunnelIDAutoIncrement c + 1,
           Tunnels := Tunnels c @ [NewTunnel (FormatInt10 (tunnelIDAutoIncrement c + 1)) r acl]\<rparr>"
      by (simp add: StartTunnel_new)
    then show ?thesis using ids_increasing_append [OF inv bound] by simp
  next
    case (Some err)
    with run st \<open>FindTunnelByRemote ext c r = None\<close>
    have "c' = c\<lparr>tunnelIDAutoIncrement := tunnelIDAutoIncrement c + 1\<rparr>"
      by (simp add: StartTunnel_new)
    then show ?thesis using ids_increasing_consume [OF inv bound] by simp
  qed
qed

lemma StartTunnel_counter:
  assumes run: "StartTunnel ext r acl c w = (res, c', w')"
  shows "tunnelIDAutoIncrement c' = tunnelIDAutoIncrement c
         \<or> tunnelIDAutoIncrement c' = tunnelIDAutoIncrement c + 1"
  using run
  by (auto simp: StartTunnel_def generateNewTunnelID_def Let_def split: prod.splits option.splits)

lemma ids_increasing_removeTunnel: "ids_increasing c \<Longrightarrow> ids_increasing (removeTunnel c t)"
  by (simp add: ids_increasing_def removeTunnel_def remove_loop_filter list_all_iff sorted_wrt_filter)

lemma TerminateTunnel_session:
  "TerminateTunnel ext t c w = (res, c', w') \<Longrightarrow> c' = c \<or> c' = removeTunnel c t"
  by (auto simp: TerminateTunnel_def split: prod.splits option.splits)

lemma removeTunnel_counter: "tunnelIDAutoIncrement (removeTunnel c t) = tunnelIDAutoIncrement c"
  by (simp add: removeTunnel_def)

lemma session_calls_append:
  "session_calls ext (xs @ ys) c w =
     (case session_calls ext xs c w of (c1, w1) \<Rightarrow> session_calls ext ys c1 w1)"
proof (induction xs arbitrary: c w)
  case Nil
  show ?case by simp
next
  case (Cons call xs)
  show ?case by (cases call) (simp_all add: Cons.IH split: prod.splits)
qed

lemma no_wrap_append:
  "no_wrap ext (xs @ ys) c w =
     (no_wrap ext xs c w \<and> (case session_calls ext xs c w of (c1, w1) \<Rightarrow> no_wrap ext ys c1 w1))"
proof (induction xs arbitrary: c w)
  case Nil
  show ?case by simp
next
  case (Cons call xs)
  show ?case by (cases call) (auto simp: Cons.IH split: prod.splits)
qed

lemma StartTunnel_counter_no_wrap:
  assumes run: "StartTunnel ext r acl c w = (res, c', w')"
    and nw: "FindTunnelByRemote ext c r = None \<Longrightarrow> sint (tunnelIDAutoIncrement c) < 9223372036854775807"
  shows "sint (tunnelIDAutoIncrement c) \<le> sint (tunnelIDAutoIncrement c')
         \<and> sint (tunnelIDAutoIncrement c') \<le> sint (tunnelIDAutoIncrement c) + 1"
proof (cases "FindTunnelByRemote ext c r")
  case (Some t)
  with run show ?thesis by (simp add: StartTunnel_found)
next
  case None
  have "tunnelIDAutoIncrement c' = tunnelIDAutoIncrement c + 1"
    using run by (auto simp: StartTunnel_new [OF None] split: prod.splits option.splits)
  then show ?thesis using sint_succ [OF nw [OF None]] by simp
qed

lemma no_wrap_invariant:
  assumes "ids_increasing c" and "no_wrap ext calls c w"
    and "session_calls ext calls c w = (c', w')"
  shows "ids_increasing c'"
  using assms
proof (induction calls arbitrary: c w)
  case Nil
  then show ?case by simp
next
  case (Cons call calls)
  show ?case
  proof (cases call)
    case (CallStartTunnel r acl)
    obtain res c1 w1 where st: "StartTunnel ext r acl c w = (res, c1, w1)"
      by (cases "StartTunnel ext r acl c w") auto
    have rest: "session_calls ext calls c1 w1 = (c', w')" and nw: "no_wrap ext calls c1 w1"
      using Cons.prems st CallStartTunnel by simp_all
    have inv1: "ids_increasing c1"
    proof (cases "FindTunnelByRemote ext c r")
      case (Some t)
      with st Cons.prems(1) show ?thesis by (simp add: StartTunnel_found)
    next
      case None
      with Cons.prems(2) CallStartTunnel
      have "sint (tunnelIDAutoIncrement c) < 9223372036854775807" by simp
      from ids_increasing_StartTunnel [OF Cons.prems(1) this st] show ?thesis .
    qed
    from Cons.IH [OF inv1 nw rest] show ?thesis .
  next
    case (CallTerminateTunnel t)
    obtain res c1 w1 where tt: "TerminateTunnel ext t c w = (res, c1, w1)"
      by (cases "TerminateTunnel ext t c w") auto
    have "c1 = c \<or> c1 = removeTunnel c t"
      using TerminateTunnel_session [OF tt] .
    then have inv1: "ids_increasing c1"
      using Cons.prems(1) ids_increasing_removeTunnel by auto
    have rest: "session_calls ext calls c1 w1 = (c', w')" and nw: "no_wrap ext calls c1 w1"
      using Cons.prems tt CallTerminateTunnel by simp_all
    from Cons.IH [OF inv1 nw rest] show ?thesis .
  qed
qed

lemma no_wrap_handed_out:
  assumes "no_wrap ext calls c w" and "session_calls ext calls c w = (c', w')"
  shows "sint (tunnelIDAutoIncrement c) \<le> sint (tunnelIDAutoIncrement c')
         \<and> handed_out ext calls c w
             = map Itoa [sint (tunnelIDAutoIncrement c) + 1 .. sint (tunnelIDAutoIncrement c')]"
  using assms
proof (induction calls arbitrary: c w)
  case Nil
  then show ?case by simp
next
  case (Cons call calls)
  show ?case
  proof (cases call)
    case (CallStartTunnel r acl)
    obtain res c1 w1 where st: "StartTunnel ext r acl c w = (res, c1, w1)"
      by (cases "StartTunnel ext r acl c w") auto
    have rest: "session_calls ext calls c1 w1 = (c', w')" and nw: "no_wrap ext calls c1 w1"
      using Cons.prems st CallStartTunnel by simp_all
    note ih = Cons.IH [OF nw rest]
    show ?thesis
    proof (cases "FindTunnelByRemote ext c r")
      case (Some t)
      with st have "c1 = c" by (simp add: StartTunnel_found)
      with ih st Some CallStartTunnel show ?thesis by simp
    next
      case None
      with Cons.prems(1) CallStartTunnel
      have b: "sint (tunnelIDAutoIncrement c) < 9223372036854775807" by simp
      have s: "sint (tunnelIDAutoIncrement c + 1) = sint (tunnelIDAutoIncrement c) + 1"
        using b by (rule sint_succ)
      have c1: "tunnelIDAutoIncrement c1 = tunnelIDAutoIncrement c + 1"
        using st by (auto simp: StartTunnel_new [OF None] split: prod.splits option.splits)
      have new: "(case res of Inr t \<Rightarrow> [TunnelID t] | Inl _ \<Rightarrow> [FormatInt10 (tunnelIDAutoIncrement c1)])
                 = [Itoa (sint (tunnelIDAutoIncrement c) + 1)]"
        using st s
        by (auto simp: StartTunnel_new [OF None] NewTunnel_def FormatInt10_def
            split: prod.splits option.splits sum.splits)
      have le: "sint (tunnelIDAutoIncrement c) + 1 \<le> sint (tunnelIDAutoIncrement c')"
        using ih c1 s by simp
      have "[sint (tunnelIDAutoIncrement c) + 1 .. sint (tunnelIDAutoIncrement c')]
            = (sint (tunnelIDAutoIncrement c) + 1)
              # [sint (tunnelIDAutoIncrement c) + 1 + 1 .. sint (tunnelIDAutoIncrement c')]"
        using le by (simp add: upto_rec1)
      with ih c1 s st None CallStartTunnel new le show ?thesis by simp
    qed
  next
    case (CallTerminateTunnel t)
    obtain res c1 w1 where tt: "TerminateTunnel ext t c w = (res, c1, w1)"
      by (cases "TerminateTunnel ext t c w") auto
    have "c1 = c \<or> c1 = removeTunnel c t"
      using TerminateTunnel_session [OF tt] .
    then have cnt: "tunnelIDAutoIncrement c1 = tunnelIDAutoIncrement c"
      using removeTunnel_counter by auto
    have rest: "session_calls ext calls c1 w1 = (c', w')" and nw: "no_wrap ext calls c1 w1"
      using Cons.prems tt CallTerminateTunnel by simp_all
    from Cons.IH [OF nw rest] cnt tt CallTerminateTunnel show ?thesis by simp
  qed
qed

lemma few_calls_no_wrap_all:
  "sint (tunnelIDAutoIncrement c) + int (length calls) \<le> 9223372036854775807
   \<Longrightarrow> \<forall>w. no_wrap ext calls c w"
proof (induction calls arbitrary: c)
  case Nil
  show ?case by simp
next
  case (Cons call calls)
  show ?case
  proof
    fix w
    show "no_wrap ext (call # calls) c w"
    proof (cases call)
      case (CallStartTunnel r acl)
      obtain res c1 w1 where st: "StartTunnel ext r acl c w = (res, c1, w1)"
        by (cases "StartTunnel ext r acl c w") auto
      have b: "sint (tunnelIDAutoIncrement c) < 9223372036854775807"
        using Cons.prems by simp
      have "sint (tunnelIDAutoIncrement c1) \<le> sint (tunnelIDAutoIncrement c) + 1"
        using StartTunnel_counter_no_wrap [OF st b] by simp
      then have "sint (tunnelIDAutoIncrement c1) + int (length calls) \<le> 9223372036854775807"
        using Cons.prems by simp
      from Cons.IH [OF this] b st CallStartTunnel show ?thesis by simp
    next
      case (CallTerminateTunnel t)
      obtain res c1 w1 where tt: "TerminateTunnel ext t c w = (res, c1, w1)"
        by (cases "TerminateTunnel ext t c w") auto
      have "c1 = c \<or> c1 = removeTunnel c t"
        using TerminateTunnel_session [OF tt] .
      then have "tunnelIDAutoIncrement c1 = tunnelIDAutoIncrement c"
        using removeTunnel_counter by auto
      then have "sint (tunnelIDAutoIncrement c1) + int (length calls) \<le> 9223372036854775807"
        using Cons.prems by simp
      from Cons.IH [OF this] tt CallTerminateTunnel show ?thesis by simp
    qed
  qed
qed

lemma few_calls_no_wrap:
  "sint (tunnelIDAutoIncrement c) + int (length calls) \<le> 9223372036854775807
   \<Longrightarrow> no_wrap ext calls c w"
  by (rule few_calls_no_wrap_all [rule_format])

lemma handed_out_short_all: "\<forall>c w. length (handed_out ext calls c w) \<le> length calls"
proof (induction calls)
  case Nil
  show ?case by simp
next
  case (Cons call calls)
  show ?case
  proof (intro allI)
    fix c w
    show "length (handed_out ext (call # calls) c w) \<le> length (call # calls)"
    proof (cases call)
      case (CallStartTunnel r acl)
      obtain res c1 w1 where st: "StartTunnel ext r acl c w = (res, c1, w1)"
        by (cases "StartTunnel ext r acl c w") auto
      have "length (handed_out ext calls c1 w1) \<le> length calls"
        using Cons.IH by blast
      with st CallStartTunnel show ?thesis
        by (auto split: option.splits sum.splits)
    next
      case (CallTerminateTunnel t)
      obtain res c1 w1 where tt: "TerminateTunnel ext t c w = (res, c1, w1)"
        by (cases "TerminateTunnel ext t c w") auto
      have "length (handed_out ext calls c1 w1) \<le> length calls"
        using Cons.IH by blast
      with tt CallTerminateTunnel show ?thesis by auto
    qed
  qed
qed

lemma handed_out_length:
  assumes "no_wrap ext calls c w" and "session_calls ext calls c w = (c', w')"
  shows "sint (tunnelIDAutoIncrement c') \<le> sint (tunnelIDAutoIncrement c) + int (length calls)"
proof -
  from no_wrap_handed_out [OF assms]
  have le: "sint (tunnelIDAutoIncrement c) \<le> sint (tunnelIDAutoIncrement c')"
    and h: "handed_out ext calls c w
             = map Itoa [sint (tunnelIDAutoIncrement c) + 1 .. sint (tunnelIDAutoIncrement c')]"
    by simp_all
  have "length (handed_out ext calls c w) \<le> length calls"
    by (rule handed_out_short_all [rule_format])
  with h le show ?thesis by simp
qed

lemma handed_out_nth:
  assumes ids: "ids = map Itoa [a + 1 .. b]" and "0 \<le> a" and "i < j" and "j < length ids"
  shows "\<exists>x y. Atoi (ids ! i) = Some x \<and> Atoi (ids ! j) = Some y \<and> 1 \<le> x \<and> x < y \<and> y \<le> b"
proof -
  have len: "length ids = nat (b - a)" using ids by simp
  have i: "ids ! i = Itoa (a + 1 + int i)" and j: "ids ! j = Itoa (a + 1 + int j)"
    using assms len by simp_all
  from i j assms len show ?thesis by (simp add: Atoi_Itoa)
qed

lemma ids_increasing_new_session: "ids_increasing (new_session sid addr req)"
  by (simp add: ids_increasing_def new_session_def)

lemma ids_increasing_nth:
  assumes "ids_increasing c" and "i < j" and "j < length (Tunnels c)"
  shows "\<exists>x y. tunnel_int (Tunnels c ! i) = Some x \<and> tunnel_int (Tunnels c ! j) = Some y
           \<and> 1 \<le> x \<and> x < y \<and> y \<le> sint (tunnelIDAutoIncrement c)"
proof -
  have b: "id_before (Tunnels c ! i) (Tunnels c ! j)"
    using assms by (simp add: ids_increasing_def sorted_wrt_iff_nth_less)
  have "Tunnels c ! i \<in> set (Tunnels c)" "Tunnels c ! j \<in> set (Tunnels c)"
    using assms by simp_all
  then have a: "id_allocated (tunnelIDAutoIncrement c) (Tunnels c ! i)"
    "id_allocated (tunnelIDAutoIncrement c) (Tunnels c ! j)"
    using assms(1) by (simp_all add: ids_increasing_def list_all_iff)
  from a b show ?thesis
    by (auto simp: id_allocated_def id_before_def split: option.splits)
qed


lemma sim_StartTunnel_bound:
  assumes "(LocalHost r, LocalPort r) \<in> set (listening w)"
    and "find_by_remote sim_Equals (Tunnels c) r = None"
  shows "StartTunnel sim r acl c w =
           (Inl (Error ''BindError''), c\<lparr>tunnelIDAutoIncrement := tunnelIDAutoIncrement c + 1\<rparr>, w)"
  using assms
  by (simp add: StartTunnel_def FindTunnelByRemote_def generateNewTunnelID_def Let_def sim_def
      sim_Start_def NewTunnel_def)

lemma sim_failing_calls:
  assumes "(LocalHost r, LocalPort r) \<in> set (listening w)"
    and "find_by_remote sim_Equals (Tunnels c) r = None"
  shows "session_calls sim (replicate n (CallStartTunnel r acl)) c w =
           (c\<lparr>tunnelIDAutoIncrement := tunnelIDAutoIncrement c + of_nat n\<rparr>, w)"
  using assms
proof (induction n arbitrary: c)
  case 0
  show ?case by simp
next
  case (Suc n)
  have "find_by_remote sim_Equals
          (Tunnels (c\<lparr>tunnelIDAutoIncrement := tunnelIDAutoIncrement c + 1\<rparr>)) r = None"
    using Suc.prems(2) by simp
  from Suc.IH [OF Suc.prems(1) this] show ?case
    by (simp add: sim_StartTunnel_bound [OF Suc.prems] add.assoc)
qed

lemma FormatInt10_max: "FormatInt10 9223372036854775807 = ''9223372036854775807''"
  by (simp add: FormatInt10_def Itoa_def udecimal.simps digit_char_def)

lemma FormatInt10_wrap: "FormatInt10 9223372036854775808 = ''-9223372036854775808''"
  by (simp add: FormatInt10_def Itoa_def udecimal.simps digit_char_def)

lemma FormatInt10_3: "FormatInt10 3 = ''3''"
  by (simp add: FormatInt10_def Itoa_def udecimal.simps digit_char_def)

lemma Atoi_max: "Atoi ''9223372036854775807'' = Some 9223372036854775807"
  by (simp add: Atoi_def digit_val_def)

lemma Atoi_wrap: "Atoi ''-9223372036854775808'' = Some (- 9223372036854775808)"
  by (simp add: Atoi_def digit_val_def)

lemma Atoi_small: "Atoi ''1'' = Some 1" "Atoi ''2'' = Some 2" "Atoi ''3'' = Some 3"
  by (simp_all add: Atoi_def digit_val_def)

text \<open>
  C5, as the code has it. A \<^verbatim>\<open>StartTunnel\<close> that finds no equal tunnel moves the
  session's counter by one, whether the tunnel starts or not, and the ID of the tunnel it
  creates is the decimal representation of the counter's new value; the first one in a new
  session is \<open>1\<close>. As long as the counter, an \<^verbatim>\<open>int64\<close>, does not wrap around
  (\<open>no_wrap\<close>: no ID is taken while the counter is at \<open>2\<^sup>6\<^sup>3 - 1\<close>), over any calls of
  \<^verbatim>\<open>StartTunnel\<close> and \<^verbatim>\<open>TerminateTunnel\<close> the counter never decreases and the IDs
  handed out, in the order of their allocation, are the decimal representations of the
  successive values of the counter. On a new session, as \<^verbatim>\<open>StartClientSession\<close>
  constructs it, they are those of 1, 2, 3 and so on up to the counter: of any two IDs the
  one allocated first is the smaller, and every allocated ID is at least 1, also the IDs of
  tunnels that have since been terminated. The counter cannot wrap in fewer than
  \<open>2\<^sup>6\<^sup>3\<close> calls. The invariant \<open>ids_increasing\<close> says the same of the tunnels that
  are in the session's list.
\<close>

theorem tunnel_ids_increasing:
  "ids_increasing (new_session sid addr req)
   \<and> (FindTunnelByRemote ext c r = None \<and> StartTunnel ext r acl c w = (res, c', w') \<longrightarrow>
        tunnelIDAutoIncrement c' = tunnelIDAutoIncrement c + 1
        \<and> (\<forall>t. res = Inr t \<longrightarrow>
              TunnelID t = FormatInt10 (tunnelIDAutoIncrement c + 1) \<and> Tunnels c' = Tunnels c @ [t]))
   \<and> (StartTunnel ext r acl (new_session sid addr req) w = (Inr ta, ca, wa) \<longrightarrow> TunnelID ta = ''1'')
   \<and> (no_wrap ext calls p wp \<and> session_calls ext calls p wp = (q, wq) \<longrightarrow>
        sint (tunnelIDAutoIncrement p) \<le> sint (tunnelIDAutoIncrement q)
        \<and> handed_out ext calls p wp
            = map Itoa [sint (tunnelIDAutoIncrement p) + 1 .. sint (tunnelIDAutoIncrement q)]
        \<and> (ids_increasing p \<longrightarrow> ids_increasing q))
   \<and> (no_wrap ext calls (new_session sid addr req) w
        \<and> session_calls ext calls (new_session sid addr req) w = (cn, wn) \<longrightarrow>
        handed_out ext calls (new_session sid addr req) w
          = map Itoa [1 .. sint (tunnelIDAutoIncrement cn)]
        \<and> ids_increasing cn
        \<and> (i < j \<and> j < length (handed_out ext calls (new_session sid addr req) w) \<longrightarrow>
             (\<exists>x y. Atoi (handed_out ext calls (new_session sid addr req) w ! i) = Some x
                \<and> Atoi (handed_out ext calls (new_session sid addr req) w ! j) = Some y
                \<and> 1 \<le> x \<and> x < y \<and> y \<le> sint (tunnelIDAutoIncrement cn))))
   \<and> (int (length calls) < 9223372036854775808 \<longrightarrow>
        no_wrap ext calls (new_session sid addr req) w)
   \<and> (int (length calls) < 9223372036854775808
        \<and> session_calls ext calls (new_session sid addr req) w = (cn, wn) \<longrightarrow>
        ids_increasing cn \<and> sint (tunnelIDAutoIncrement cn) \<le> int (length calls))
   \<and> (ids_increasing s \<and> k < l \<and> l < length (Tunnels s) \<longrightarrow>
        (\<exists>x y. tunnel_int (Tunnels s ! k) = Some x \<and> tunnel_int (Tunnels s ! l) = Some y
           \<and> 1 \<le> x \<and> x < y \<and> y \<le> sint (tunnelIDAutoIncrement s)))"
proof -
  let ?s0 = "new_session sid addr req"
  have z: "sint (tunnelIDAutoIncrement ?s0) = 0"
    by (simp add: new_session_def)
  have c1: "ids_increasing ?s0"
    by (rule ids_increasing_new_session)
  have c2: "FindTunnelByRemote ext c r = None \<and> StartTunnel ext r acl c w = (res, c', w') \<longrightarrow>
        tunnelIDAutoIncrement c' = tunnelIDAutoIncrement c + 1
        \<and> (\<forall>t. res = Inr t \<longrightarrow>
              TunnelID t = FormatInt10 (tunnelIDAutoIncrement c + 1) \<and> Tunnels c' = Tunnels c @ [t])"
  proof
    assume a: "FindTunnelByRemote ext c r = None \<and> StartTunnel ext r acl c w = (res, c', w')"
    then have f: "FindTunnelByRemote ext c r = None" by simp
    from a show "tunnelIDAutoIncrement c' = tunnelIDAutoIncrement c + 1
        \<and> (\<forall>t. res = Inr t \<longrightarrow>
              TunnelID t = FormatInt10 (tunnelIDAutoIncrement c + 1) \<and> Tunnels c' = Tunnels c @ [t])"
      by (auto simp: StartTunnel_new [OF f] NewTunnel_def split: prod.splits option.splits)
  qed
  have c3: "StartTunnel ext r acl ?s0 w = (Inr ta, ca, wa) \<longrightarrow> TunnelID ta = ''1''"
  proof
    assume a: "StartTunnel ext r acl ?s0 w = (Inr ta, ca, wa)"
    have f: "FindTunnelByRemote ext ?s0 r = None"
      by (simp add: FindTunnelByRemote_def new_session_def)
    have o: "tunnelIDAutoIncrement ?s0 + 1 = 1"
      by (simp add: new_session_def)
    from a show "TunnelID ta = ''1''"
      by (auto simp: StartTunnel_new [OF f] o FormatInt10_1 NewTunnel_def
          split: prod.splits option.splits)
  qed
  have c4: "no_wrap ext calls p wp \<and> session_calls ext calls p wp = (q, wq) \<longrightarrow>
        sint (tunnelIDAutoIncrement p) \<le> sint (tunnelIDAutoIncrement q)
        \<and> handed_out ext calls p wp
            = map Itoa [sint (tunnelIDAutoIncrement p) + 1 .. sint (tunnelIDAutoIncrement q)]
        \<and> (ids_increasing p \<longrightarrow> ids_increasing q)"
  proof
    assume "no_wrap ext calls p wp \<and> session_calls ext calls p wp = (q, wq)"
    then have nw: "no_wrap ext calls p wp" and run: "session_calls ext calls p wp = (q, wq)"
      by simp_all
    from no_wrap_handed_out [OF nw run] no_wrap_invariant [OF _ nw run]
    show "sint (tunnelIDAutoIncrement p) \<le> sint (tunnelIDAutoIncrement q)
        \<and> handed_out ext calls p wp
            = map Itoa [sint (tunnelIDAutoIncrement p) + 1 .. sint (tunnelIDAutoIncrement q)]
        \<and> (ids_increasing p \<longrightarrow> ids_increasing q)"
      by blast
  qed
  have c5: "no_wrap ext calls ?s0 w \<and> session_calls ext calls ?s0 w = (cn, wn) \<longrightarrow>
        handed_out ext calls ?s0 w = map Itoa [1 .. sint (tunnelIDAutoIncrement cn)]
        \<and> ids_increasing cn
        \<and> (i < j \<and> j < length (handed_out ext calls ?s0 w) \<longrightarrow>
             (\<exists>x y. Atoi (handed_out ext calls ?s0 w ! i) = Some x
                \<and> Atoi (handed_out ext calls ?s0 w ! j) = Some y
                \<and> 1 \<le> x \<and> x < y \<and> y \<le> sint (tunnelIDAutoIncrement cn)))"
  proof
    assume "no_wrap ext calls ?s0 w \<and> session_calls ext calls ?s0 w = (cn, wn)"
    then have nw: "no_wrap ext calls ?s0 w" and run: "session_calls ext calls ?s0 w = (cn, wn)"
      by simp_all
    have h: "handed_out ext calls ?s0 w = map Itoa [0 + 1 .. sint (tunnelIDAutoIncrement cn)]"
      using no_wrap_handed_out [OF nw run] z by simp
    have inv: "ids_increasing cn"
      by (rule no_wrap_invariant [OF c1 nw run])
    have ord: "i < j \<and> j < length (handed_out ext calls ?s0 w) \<longrightarrow>
             (\<exists>x y. Atoi (handed_out ext calls ?s0 w ! i) = Some x
                \<and> Atoi (handed_out ext calls ?s0 w ! j) = Some y
                \<and> 1 \<le> x \<and> x < y \<and> y \<le> sint (tunnelIDAutoIncrement cn))"
      using handed_out_nth [OF h] by simp
    from h inv ord show "handed_out ext calls ?s0 w = map Itoa [1 .. sint (tunnelIDAutoIncrement cn)]
        \<and> ids_increasing cn
        \<and> (i < j \<and> j < length (handed_out ext calls ?s0 w) \<longrightarrow>
             (\<exists>x y. Atoi (handed_out ext calls ?s0 w ! i) = Some x
                \<and> Atoi (handed_out ext calls ?s0 w ! j) = Some y
                \<and> 1 \<le> x \<and> x < y \<and> y \<le> sint (tunnelIDAutoIncrement cn)))"
      by simp
  qed
  have c6: "int (length calls) < 9223372036854775808 \<longrightarrow> no_wrap ext calls ?s0 w"
  proof
    assume "int (length calls) < 9223372036854775808"
    then have "sint (tunnelIDAutoIncrement ?s0) + int (length calls) \<le> 9223372036854775807"
      by (simp add: z)
    then show "no_wrap ext calls ?s0 w" by (rule few_calls_no_wrap)
  qed
  have c7: "int (length calls) < 9223372036854775808 \<and> session_calls ext calls ?s0 w = (cn, wn) \<longrightarrow>
        ids_increasing cn \<and> sint (tunnelIDAutoIncrement cn) \<le> int (length calls)"
  proof
    assume a: "int (length calls) < 9223372036854775808 \<and> session_calls ext calls ?s0 w = (cn, wn)"
    then have run: "session_calls ext calls ?s0 w = (cn, wn)" by simp
    from a c6 have nw: "no_wrap ext calls ?s0 w" by simp
    from no_wrap_invariant [OF c1 nw run] handed_out_length [OF nw run] z
    show "ids_increasing cn \<and> sint (tunnelIDAutoIncrement cn) \<le> int (length calls)"
      by simp
  qed
  have c8: "ids_increasing s \<and> k < l \<and> l < length (Tunnels s) \<longrightarrow>
        (\<exists>x y. tunnel_int (Tunnels s ! k) = Some x \<and> tunnel_int (Tunnels s ! l) = Some y
           \<and> 1 \<le> x \<and> x < y \<and> y \<le> sint (tunnelIDAutoIncrement s))"
    using ids_increasing_nth by blast
  from c1 c2 c3 c4 c5 c6 c7 c8 show ?thesis by (intro conjI)
qed

lemma three_calls:
  "session_calls sim
      [CallStartTunnel (remote_to ''80'' ''8080'') None, CallStartTunnel (remote_to ''2001'' ''23'') None,
       CallStartTunnel (remote_to ''81'' ''8081'') None]
      (new_session ''s'' ''10.0.0.1:5000'' (request_for [])) busy_world
    = (new_session ''s'' ''10.0.0.1:5000'' (request_for [])
         \<lparr>Tunnels := [tunnel_of ''1'' ''80'' ''8080'', tunnel_of ''3'' ''81'' ''8081''],
          tunnelIDAutoIncrement := 3\<rparr>,
       busy_world\<lparr>listening := [(''0.0.0.0'', ''2001''), (''0.0.0.0'', ''80''), (''0.0.0.0'', ''81'')]\<rparr>)"
  by (simp add: new_session_def request_for_def busy_world_def sim_defs run_defs FormatInt10_3)

lemma four_calls:
  "session_calls sim
      [CallStartTunnel (remote_to ''80'' ''8080'') None, CallStartTunnel (remote_to ''2001'' ''23'') None,
       CallStartTunnel (remote_to ''81'' ''8081'') None, CallTerminateTunnel (tunnel_of ''1'' ''80'' ''8080'')]
      (new_session ''s'' ''10.0.0.1:5000'' (request_for [])) busy_world
    = (new_session ''s'' ''10.0.0.1:5000'' (request_for [])
         \<lparr>Tunnels := [tunnel_of ''3'' ''81'' ''8081''], tunnelIDAutoIncrement := 3\<rparr>,
       busy_world\<lparr>listening := [(''0.0.0.0'', ''2001''), (''0.0.0.0'', ''81'')]\<rparr>)"
  by (simp add: new_session_def request_for_def busy_world_def sim_defs run_defs FormatInt10_3
      TerminateTunnel_def removeTunnel_def)

lemma Itoa_upto_3: "map Itoa [1 .. 3] = [''1'', ''2'', ''3'']"
  by (simp add: upto_rec1 Itoa_def udecimal.simps digit_char_def)

theorem tunnel_ids_increasing_witness:
  "StartTunnel sim (remote_to ''80'' ''8080'') None (new_session ''s'' ''10.0.0.1:5000'' (request_for [])) busy_world
     = (Inr (tunnel_of ''1'' ''80'' ''8080''),
        new_session ''s'' ''10.0.0.1:5000'' (request_for [])
          \<lparr>Tunnels := [tunnel_of ''1'' ''80'' ''8080''], tunnelIDAutoIncrement := 1\<rparr>,
        busy_world\<lparr>listening := [(''0.0.0.0'', ''2001''), (''0.0.0.0'', ''80'')]\<rparr>)
   \<and> TunnelID (tunnel_of ''1'' ''80'' ''8080'') = ''1''
   \<and> no_wrap sim
        [CallStartTunnel (remote_to ''80'' ''8080'') None, CallStartTunnel (remote_to ''2001'' ''23'') None,
         CallStartTunnel (remote_to ''81'' ''8081'') None, CallTerminateTunnel (tunnel_of ''1'' ''80'' ''8080'')]
        (new_session ''s'' ''10.0.0.1:5000'' (request_for [])) busy_world
   \<and> Tunnels (fst (session_calls sim
        [CallStartTunnel (remote_to ''80'' ''8080'') None, CallStartTunnel (remote_to ''2001'' ''23'') None,
         CallStartTunnel (remote_to ''81'' ''8081'') None, CallTerminateTunnel (tunnel_of ''1'' ''80'' ''8080'')]
        (new_session ''s'' ''10.0.0.1:5000'' (request_for [])) busy_world))
       = [tunnel_of ''3'' ''81'' ''8081'']
   \<and> handed_out sim
        [CallStartTunnel (remote_to ''80'' ''8080'') None, CallStartTunnel (remote_to ''2001'' ''23'') None,
         CallStartTunnel (remote_to ''81'' ''8081'') None, CallTerminateTunnel (tunnel_of ''1'' ''80'' ''8080'')]
        (new_session ''s'' ''10.0.0.1:5000'' (request_for [])) busy_world
       = [''1'', ''2'', ''3'']
   \<and> (\<exists>x y. Atoi ''1'' = Some x \<and> Atoi ''3'' = Some y \<and> 1 \<le> x \<and> x < y \<and> y \<le> 3)
   \<and> ids_increasing (new_session ''s'' ''10.0.0.1:5000'' (request_for [])
         \<lparr>Tunnels := [tunnel_of ''1'' ''80'' ''8080'', tunnel_of ''3'' ''81'' ''8081''],
          tunnelIDAutoIncrement := 3\<rparr>)
   \<and> (\<exists>x y. tunnel_int (tunnel_of ''1'' ''80'' ''8080'') = Some x
          \<and> tunnel_int (tunnel_of ''3'' ''81'' ''8081'') = Some y \<and> 1 \<le> x \<and> x < y \<and> y \<le> 3)
   \<and> TunnelID (tunnel_of ''1'' ''80'' ''8080'')
       = FormatInt10 (tunnelIDAutoIncrement (new_session ''s'' ''10.0.0.1:5000'' (request_for [])) + 1)
   \<and> handed_out sim
        [CallStartTunnel (remote_to ''2001'' ''23'') None, CallStartTunnel (remote_to ''81'' ''8081'') None]
        (new_session ''s'' ''10.0.0.1:5000'' (request_for [])
          \<lparr>Tunnels := [tunnel_of ''1'' ''80'' ''8080''], tunnelIDAutoIncrement := 1\<rparr>)
        (busy_world\<lparr>listening := [(''0.0.0.0'', ''2001''), (''0.0.0.0'', ''80'')]\<rparr>)
       = [''2'', ''3'']"
proof -
  let ?s0 = "new_session ''s'' ''10.0.0.1:5000'' (request_for [])"
  let ?three = "[CallStartTunnel (remote_to ''80'' ''8080'') None,
       CallStartTunnel (remote_to ''2001'' ''23'') None, CallStartTunnel (remote_to ''81'' ''8081'') None]"
  let ?four = "[CallStartTunnel (remote_to ''80'' ''8080'') None,
       CallStartTunnel (remote_to ''2001'' ''23'') None, CallStartTunnel (remote_to ''81'' ''8081'') None,
       CallTerminateTunnel (tunnel_of ''1'' ''80'' ''8080'')]"
  let ?s1 = "?s0\<lparr>Tunnels := [tunnel_of ''1'' ''80'' ''8080''], tunnelIDAutoIncrement := 1\<rparr>"
  let ?w1 = "busy_world\<lparr>listening := [(''0.0.0.0'', ''2001''), (''0.0.0.0'', ''80'')]\<rparr>"
  let ?s3 = "?s0\<lparr>Tunnels := [tunnel_of ''1'' ''80'' ''8080'', tunnel_of ''3'' ''81'' ''8081''],
          tunnelIDAutoIncrement := 3\<rparr>"
  let ?w3 = "busy_world\<lparr>listening := [(''0.0.0.0'', ''2001''), (''0.0.0.0'', ''80''), (''0.0.0.0'', ''81'')]\<rparr>"
  let ?s4 = "?s0\<lparr>Tunnels := [tunnel_of ''3'' ''81'' ''8081''], tunnelIDAutoIncrement := 3\<rparr>"
  let ?w4 = "busy_world\<lparr>listening := [(''0.0.0.0'', ''2001''), (''0.0.0.0'', ''81'')]\<rparr>"
  have first: "StartTunnel sim (remote_to ''80'' ''8080'') None ?s0 busy_world
     = (Inr (tunnel_of ''1'' ''80'' ''8080''), ?s1, ?w1)"
    by (simp add: new_session_def request_for_def busy_world_def sim_defs run_defs)
  note on_three = tunnel_ids_increasing [where ext = sim and sid = "''s''" and addr = "''10.0.0.1:5000''"
      and req = "request_for []" and w = busy_world and r = "remote_to ''80'' ''8080''" and acl = None
      and ta = "tunnel_of ''1'' ''80'' ''8080''" and ca = ?s1 and wa = ?w1
      and calls = ?three and cn = ?s3 and wn = ?w3 and s = ?s3 and k = "0::nat" and l = "1::nat"]
  note on_four = tunnel_ids_increasing [where ext = sim and sid = "''s''" and addr = "''10.0.0.1:5000''"
      and req = "request_for []" and w = busy_world
      and calls = ?four and cn = ?s4 and wn = ?w4 and i = "0::nat" and j = "2::nat"]
  have one: "TunnelID (tunnel_of ''1'' ''80'' ''8080'') = ''1''"
    by (rule on_three [THEN conjunct2, THEN conjunct2, THEN conjunct1, THEN mp, OF first])
  have len4: "int (length ?four) < 9223372036854775808" by simp
  have nw: "no_wrap sim ?four ?s0 busy_world"
    by (rule on_four [THEN conjunct2, THEN conjunct2, THEN conjunct2, THEN conjunct2,
          THEN conjunct2, THEN conjunct1, THEN mp, OF len4])
  note run4 = on_four [THEN conjunct2, THEN conjunct2, THEN conjunct2, THEN conjunct2,
          THEN conjunct1, THEN mp, OF conjI [OF nw four_calls]]
  have ends: "Tunnels (fst (session_calls sim ?four ?s0 busy_world)) = [tunnel_of ''3'' ''81'' ''8081'']"
    unfolding four_calls by simp
  have ids: "handed_out sim ?four ?s0 busy_world = [''1'', ''2'', ''3'']"
    using run4 [THEN conjunct1] by (simp add: Itoa_upto_3)
  have idx: "(0::nat) < 2 \<and> 2 < length (handed_out sim ?four ?s0 busy_world)"
    unfolding ids by simp
  have "\<exists>x y. Atoi (handed_out sim ?four ?s0 busy_world ! 0) = Some x
      \<and> Atoi (handed_out sim ?four ?s0 busy_world ! 2) = Some y
      \<and> 1 \<le> x \<and> x < y \<and> y \<le> sint (tunnelIDAutoIncrement ?s4)"
    by (rule run4 [THEN conjunct2, THEN conjunct2, THEN mp, OF idx])
  then have ord: "\<exists>x y. Atoi ''1'' = Some x \<and> Atoi ''3'' = Some y \<and> 1 \<le> x \<and> x < y \<and> y \<le> 3"
    unfolding ids by simp
  have len3: "int (length ?three) < 9223372036854775808" by simp
  have inv: "ids_increasing ?s3"
    using on_three [THEN conjunct2, THEN conjunct2, THEN conjunct2, THEN conjunct2,
        THEN conjunct2, THEN conjunct2, THEN conjunct1, THEN mp, OF conjI [OF len3 three_calls]]
    by simp
  have idx3: "(0::nat) < 1 \<and> 1 < length (Tunnels ?s3)" by simp
  have "\<exists>x y. tunnel_int (Tunnels ?s3 ! 0) = Some x \<and> tunnel_int (Tunnels ?s3 ! 1) = Some y
           \<and> 1 \<le> x \<and> x < y \<and> y \<le> sint (tunnelIDAutoIncrement ?s3)"
    by (rule on_three [THEN conjunct2, THEN conjunct2, THEN conjunct2, THEN conjunct2,
        THEN conjunct2, THEN conjunct2, THEN conjunct2, THEN mp, OF conjI [OF inv idx3]])
  then have ord3: "\<exists>x y. tunnel_int (tunnel_of ''1'' ''80'' ''8080'') = Some x
          \<and> tunnel_int (tunnel_of ''3'' ''81'' ''8081'') = Some y \<and> 1 \<le> x \<and> x < y \<and> y \<le> 3"
    by simp
  let ?two = "[CallStartTunnel (remote_to ''2001'' ''23'') None, CallStartTunnel (remote_to ''81'' ''8081'') None]"
  note on_step = tunnel_ids_increasing [where ext = sim and c = ?s0 and r = "remote_to ''80'' ''8080''"
      and acl = None and w = busy_world and res = "Inr (tunnel_of ''1'' ''80'' ''8080'')"
      and c' = ?s1 and w' = ?w1 and calls = ?two and p = ?s1 and wp = ?w1 and q = ?s3 and wq = ?w3]
  have none0: "FindTunnelByRemote sim ?s0 (remote_to ''80'' ''8080'') = None"
    by (simp add: FindTunnelByRemote_def new_session_def)
  have "tunnelIDAutoIncrement ?s1 = tunnelIDAutoIncrement ?s0 + 1
      \<and> (\<forall>t. (Inr (tunnel_of ''1'' ''80'' ''8080'') :: error + Tunnel) = Inr t \<longrightarrow>
            TunnelID t = FormatInt10 (tunnelIDAutoIncrement ?s0 + 1) \<and> Tunnels ?s1 = Tunnels ?s0 @ [t])"
    by (rule on_step [THEN conjunct2, THEN conjunct1, THEN mp, OF conjI [OF none0 first]])
  then have dec: "TunnelID (tunnel_of ''1'' ''80'' ''8080'') = FormatInt10 (tunnelIDAutoIncrement ?s0 + 1)"
    by blast
  have none1: "FindTunnelByRemote sim ?s1 (remote_to ''2001'' ''23'') = None"
    by (simp add: FindTunnelByRemote_def sim_defs)
  have failed: "StartTunnel sim (remote_to ''2001'' ''23'') None ?s1 ?w1
      = (Inl (Error ''BindError''), ?s0\<lparr>Tunnels := [tunnel_of ''1'' ''80'' ''8080''],
           tunnelIDAutoIncrement := 2\<rparr>, ?w1)"
    by (simp add: new_session_def request_for_def busy_world_def sim_defs run_defs)
  have none2: "FindTunnelByRemote sim (?s0\<lparr>Tunnels := [tunnel_of ''1'' ''80'' ''8080''],
           tunnelIDAutoIncrement := 2\<rparr>) (remote_to ''81'' ''8081'') = None"
    by (simp add: FindTunnelByRemote_def sim_defs)
  have created: "StartTunnel sim (remote_to ''81'' ''8081'') None
      (?s0\<lparr>Tunnels := [tunnel_of ''1'' ''80'' ''8080''], tunnelIDAutoIncrement := 2\<rparr>) ?w1
      = (Inr (tunnel_of ''3'' ''81'' ''8081''), ?s3, ?w3)"
    by (simp add: new_session_def request_for_def busy_world_def sim_defs run_defs FormatInt10_3)
  have small: "sint (tunnelIDAutoIncrement ?s1) < 9223372036854775807"
    "sint (tunnelIDAutoIncrement (?s0\<lparr>Tunnels := [tunnel_of ''1'' ''80'' ''8080''],
           tunnelIDAutoIncrement := 2\<rparr>)) < 9223372036854775807"
    by simp_all
  have nw2: "no_wrap sim ?two ?s1 ?w1"
    using none1 none2 small
    by (simp only: no_wrap.simps failed created prod.case) simp
  have run2: "session_calls sim ?two ?s1 ?w1 = (?s3, ?w3)"
    by (simp only: session_calls.simps failed created prod.case)
  have "sint (tunnelIDAutoIncrement ?s1) \<le> sint (tunnelIDAutoIncrement ?s3)
      \<and> handed_out sim ?two ?s1 ?w1
          = map Itoa [sint (tunnelIDAutoIncrement ?s1) + 1 .. sint (tunnelIDAutoIncrement ?s3)]
      \<and> (ids_increasing ?s1 \<longrightarrow> ids_increasing ?s3)"
    by (rule on_step [THEN conjunct2, THEN conjunct2, THEN conjunct2, THEN conjunct1, THEN mp,
          OF conjI [OF nw2 run2]])
  then have "handed_out sim ?two ?s1 ?w1 = map Itoa [2 .. 3]"
    by simp
  then have later: "handed_out sim ?two ?s1 ?w1 = [''2'', ''3'']"
    by (simp add: upto_rec1 Itoa_def udecimal.simps digit_char_def)
  from first one nw ends ids ord inv ord3 dec later show ?thesis by (intro conjI)
qed

text \<open>
  C5 as stated fails when the counter wraps around. A new session starts a tunnel
  (ID \<open>1\<close>), then \<open>2\<^sup>6\<^sup>3 - 2\<close> calls of \<^verbatim>\<open>StartTunnel\<close> fail to bind, each
  consuming an ID, and the next call creates a tunnel: the counter, at \<open>2\<^sup>6\<^sup>3 - 1\<close>,
  wraps around and the tunnel created last has the ID \<open>-9223372036854775808\<close>, below 1
  and below the ID of the tunnel created first. The same step from the session as it is
  just before: the invariant holds there, and the tunnel it creates breaks it.
\<close>

theorem tunnel_ids_wrap_counterexample:
  "map tunnel_int (Tunnels (fst (session_calls sim
       (CallStartTunnel (remote_to ''80'' ''8080'') None
        # replicate 9223372036854775806 (CallStartTunnel (remote_to ''2001'' ''23'') None)
        @ [CallStartTunnel (remote_to ''81'' ''8081'') None])
       (new_session ''s'' ''10.0.0.1:5000'' (request_for [])) busy_world)))
     = [Some 1, Some (- 9223372036854775808)]
   \<and> ids_increasing (new_client ''s''\<lparr>Tunnels := [tunnel_of ''1'' ''80'' ''8080''],
                                        tunnelIDAutoIncrement := 9223372036854775807\<rparr>)
   \<and> fst (StartTunnel sim (remote_to ''81'' ''8081'') None
          (new_client ''s''\<lparr>Tunnels := [tunnel_of ''1'' ''80'' ''8080''],
                             tunnelIDAutoIncrement := 9223372036854775807\<rparr>)
          (busy_world\<lparr>listening := [(''0.0.0.0'', ''2001''), (''0.0.0.0'', ''80'')]\<rparr>))
     = Inr (tunnel_of ''-9223372036854775808'' ''81'' ''8081'')
   \<and> tunnel_int (tunnel_of ''-9223372036854775808'' ''81'' ''8081'') = Some (- 9223372036854775808)"
proof -
  let ?s0 = "new_session ''s'' ''10.0.0.1:5000'' (request_for [])"
  let ?s1 = "?s0\<lparr>Tunnels := [tunnel_of ''1'' ''80'' ''8080''], tunnelIDAutoIncrement := 1\<rparr>"
  let ?w1 = "busy_world\<lparr>listening := [(''0.0.0.0'', ''2001''), (''0.0.0.0'', ''80'')]\<rparr>"
  let ?bad = "remote_to ''2001'' ''23''"
  have first: "StartTunnel sim (remote_to ''80'' ''8080'') None ?s0 busy_world
     = (Inr (tunnel_of ''1'' ''80'' ''8080''), ?s1, ?w1)"
    by (simp add: new_session_def request_for_def busy_world_def sim_defs run_defs)
  have bound: "(LocalHost ?bad, LocalPort ?bad) \<in> set (listening ?w1)"
    by (simp add: remote_to_def)
  have none: "find_by_remote sim_Equals (Tunnels ?s1) ?bad = None"
    by (simp add: sim_defs)
  let ?sm = "?s0\<lparr>Tunnels := [tunnel_of ''1'' ''80'' ''8080''],
                  tunnelIDAutoIncrement := 9223372036854775807\<rparr>"
  have fails: "session_calls sim (replicate 9223372036854775806 (CallStartTunnel ?bad None)) ?s1 ?w1
      = (?sm, ?w1)"
    using sim_failing_calls [OF bound none, of 9223372036854775806 None] by simp
  have last: "StartTunnel sim (remote_to ''81'' ''8081'') None ?sm ?w1
     = (Inr (tunnel_of ''-9223372036854775808'' ''81'' ''8081''),
        ?s0\<lparr>Tunnels := [tunnel_of ''1'' ''80'' ''8080'', tunnel_of ''-9223372036854775808'' ''81'' ''8081''],
             tunnelIDAutoIncrement := 9223372036854775808\<rparr>,
        busy_world\<lparr>listening := [(''0.0.0.0'', ''2001''), (''0.0.0.0'', ''80''), (''0.0.0.0'', ''81'')]\<rparr>)"
    by (simp add: new_session_def request_for_def busy_world_def sim_defs StartTunnel_def
        FindTunnelByRemote_def generateNewTunnelID_def Let_def FormatInt10_wrap)
  have ints: "tunnel_int (tunnel_of ''1'' ''80'' ''8080'') = Some 1"
    "tunnel_int (tunnel_of ''-9223372036854775808'' ''81'' ''8081'') = Some (- 9223372036854775808)"
    by (simp_all add: tunnel_int_def tunnel_of_def NewTunnel_def Atoi_small Atoi_wrap)
  have run: "map tunnel_int (Tunnels (fst (session_calls sim
       (CallStartTunnel (remote_to ''80'' ''8080'') None
        # replicate 9223372036854775806 (CallStartTunnel ?bad None)
        @ [CallStartTunnel (remote_to ''81'' ''8081'') None]) ?s0 busy_world)))
     = [Some 1, Some (- 9223372036854775808)]"
    by (simp add: first session_calls_append fails last ints)
  have inv: "ids_increasing (new_client ''s''\<lparr>Tunnels := [tunnel_of ''1'' ''80'' ''8080''],
                                        tunnelIDAutoIncrement := 9223372036854775807\<rparr>)"
    by (simp add: ids_increasing_def id_allocated_def ints)
  have step: "fst (StartTunnel sim (remote_to ''81'' ''8081'') None
          (new_client ''s''\<lparr>Tunnels := [tunnel_of ''1'' ''80'' ''8080''],
                             tunnelIDAutoIncrement := 9223372036854775807\<rparr>) ?w1)
     = Inr (tunnel_of ''-9223372036854775808'' ''81'' ''8081'')"
    by (simp add: busy_world_def sim_defs StartTunnel_def
        FindTunnelByRemote_def generateNewTunnelID_def Let_def FormatInt10_wrap)
  from run inv step ints(2) show ?thesis by (intro conjI)
qed

subsection \<open>A tunnel that fails to start\<close>

lemma StartTunnel_fails:
  assumes "FindTunnelByRemote ext c r = None"
    and "tunnel_Start ext (NewTunnel (FormatInt10 (tunnelIDAutoIncrement c + 1)) r acl) w = (Some err, wb)"
  shows "StartTunnel ext r acl c w
           = (Inl err, c\<lparr>tunnelIDAutoIncrement := tunnelIDAutoIncrement c + 1\<rparr>, wb)"
  using assms by (simp add: StartTunnel_new)

lemma find_by_remote_mem: "find_by_remote eq ts r = Some t \<Longrightarrow> t \<in> set ts"
  by (induction ts) (auto split: if_splits)

lemma StartTunnel_result_in_list:
  assumes "StartTunnel ext r acl c w = (Inr t, c', w')"
  shows "t \<in> set (Tunnels c')"
proof (cases "FindTunnelByRemote ext c r")
  case (Some u)
  with assms have "t = u" "c' = c" by (simp_all add: StartTunnel_found)
  with Some show ?thesis by (simp add: FindTunnelByRemote_def find_by_remote_mem)
next
  case None
  with assms show ?thesis
    by (auto simp: StartTunnel_new [OF None] split: prod.splits option.splits)
qed

text \<open>
  The ID that stands for \<open>x\<close> is out of use in a session: the counter has reached \<open>x\<close>
  and no tunnel of the list carries it.
\<close>

lemma unused_StartTunnel:
  assumes inv: "ids_increasing c" and reached: "x \<le> sint (tunnelIDAutoIncrement c)"
    and free: "\<forall>u \<in> set (Tunnels c). tunnel_int u \<noteq> Some x"
    and nw: "FindTunnelByRemote ext c r = None \<Longrightarrow> sint (tunnelIDAutoIncrement c) < 9223372036854775807"
    and run: "StartTunnel ext r acl c w = (res, c', w')"
  shows "ids_increasing c' \<and> x \<le> sint (tunnelIDAutoIncrement c')
         \<and> (\<forall>u \<in> set (Tunnels c'). tunnel_int u \<noteq> Some x)"
proof (cases "FindTunnelByRemote ext c r")
  case (Some t)
  with run have "c' = c" by (simp add: StartTunnel_found)
  with inv reached free show ?thesis by simp
next
  case None
  note b = nw [OF None]
  have s: "sint (tunnelIDAutoIncrement c + 1) = sint (tunnelIDAutoIncrement c) + 1"
    using b by (rule sint_succ)
  have inv': "ids_increasing c'"
    by (rule ids_increasing_StartTunnel [OF inv b run])
  have cnt: "tunnelIDAutoIncrement c' = tunnelIDAutoIncrement c + 1"
    using run by (auto simp: StartTunnel_new [OF None] split: prod.splits option.splits)
  have "set (Tunnels c') \<subseteq> insert (NewTunnel (FormatInt10 (tunnelIDAutoIncrement c + 1)) r acl)
          (set (Tunnels c))"
    using run by (auto simp: StartTunnel_new [OF None] split: prod.splits option.splits)
  moreover have "tunnel_int (NewTunnel (FormatInt10 (tunnelIDAutoIncrement c + 1)) r acl) \<noteq> Some x"
    using reached s by (simp add: tunnel_int_NewTunnel)
  ultimately have "\<forall>u \<in> set (Tunnels c'). tunnel_int u \<noteq> Some x"
    using free by auto
  with inv' cnt s reached show ?thesis by simp
qed

lemma unused_run:
  assumes "ids_increasing c" and "x \<le> sint (tunnelIDAutoIncrement c)"
    and "\<forall>u \<in> set (Tunnels c). tunnel_int u \<noteq> Some x"
    and "no_wrap ext calls c w" and "session_calls ext calls c w = (c', w')"
  shows "\<forall>u \<in> set (Tunnels c'). tunnel_int u \<noteq> Some x"
  using assms
proof (induction calls arbitrary: c w)
  case Nil
  then show ?case by simp
next
  case (Cons call calls)
  show ?case
  proof (cases call)
    case (CallStartTunnel r acl)
    obtain res c1 w1 where st: "StartTunnel ext r acl c w = (res, c1, w1)"
      by (cases "StartTunnel ext r acl c w") auto
    have rest: "session_calls ext calls c1 w1 = (c', w')" and nw: "no_wrap ext calls c1 w1"
      using Cons.prems st CallStartTunnel by simp_all
    have b: "FindTunnelByRemote ext c r = None \<Longrightarrow> sint (tunnelIDAutoIncrement c) < 9223372036854775807"
      using Cons.prems(4) CallStartTunnel by simp
    note step = unused_StartTunnel [OF Cons.prems(1) Cons.prems(2) Cons.prems(3) b st]
    from step have p1: "ids_increasing c1" and p2: "x \<le> sint (tunnelIDAutoIncrement c1)"
      and p3: "\<forall>u \<in> set (Tunnels c1). tunnel_int u \<noteq> Some x"
      by simp_all
    from Cons.IH [OF p1 p2 p3 nw rest] show ?thesis .
  next
    case (CallTerminateTunnel t)
    obtain res c1 w1 where tt: "TerminateTunnel ext t c w = (res, c1, w1)"
      by (cases "TerminateTunnel ext t c w") auto
    have c1: "c1 = c \<or> c1 = removeTunnel c t"
      using TerminateTunnel_session [OF tt] .
    have p1: "ids_increasing c1"
      using c1 Cons.prems(1) ids_increasing_removeTunnel by auto
    have p2: "x \<le> sint (tunnelIDAutoIncrement c1)"
      using c1 Cons.prems(2) removeTunnel_counter by auto
    have p3: "\<forall>u \<in> set (Tunnels c1). tunnel_int u \<noteq> Some x"
      using c1 Cons.prems(3) by (auto simp: removeTunnel_def remove_loop_filter)
    have rest: "session_calls ext calls c1 w1 = (c', w')" and nw: "no_wrap ext calls c1 w1"
      using Cons.prems tt CallTerminateTunnel by simp_all
    from Cons.IH [OF p1 p2 p3 nw rest] show ?thesis .
  qed
qed

lemma later_id_larger:
  assumes none0: "FindTunnelByRemote ext c r = None"
    and fails: "tunnel_Start ext (NewTunnel (FormatInt10 (tunnelIDAutoIncrement c + 1)) r acl) w = (Some err, wb)"
    and nw: "no_wrap ext (CallStartTunnel r acl # calls @ [CallStartTunnel rr aclr]) c w"
    and calls: "session_calls ext calls (fst (snd (StartTunnel ext r acl c w))) wb = (cc, wc)"
    and none: "FindTunnelByRemote ext cc rr = None"
    and created: "StartTunnel ext rr aclr cc wc = (Inr t, cd, wd)"
  shows "\<exists>x y. Atoi (FormatInt10 (tunnelIDAutoIncrement c + 1)) = Some x \<and> tunnel_int t = Some y
           \<and> x < y"
proof -
  let ?n = "tunnelIDAutoIncrement c"
  let ?c1 = "c\<lparr>tunnelIDAutoIncrement := ?n + 1\<rparr>"
  have f: "StartTunnel ext r acl c w = (Inl err, ?c1, wb)"
    by (rule StartTunnel_fails [OF none0 fails])
  have b: "sint ?n < 9223372036854775807"
    using nw none0 by simp
  have s1: "sint (?n + 1) = sint ?n + 1"
    using b by (rule sint_succ)
  have run: "session_calls ext calls ?c1 wb = (cc, wc)"
    using calls f by simp
  have nw1: "no_wrap ext (calls @ [CallStartTunnel rr aclr]) ?c1 wb"
    using nw f by simp
  then have nwc: "no_wrap ext calls ?c1 wb" and nwl: "no_wrap ext [CallStartTunnel rr aclr] cc wc"
    using run by (simp_all add: no_wrap_append)
  have b2: "sint (tunnelIDAutoIncrement cc) < 9223372036854775807"
    using nwl none by simp
  have le: "sint ?n + 1 \<le> sint (tunnelIDAutoIncrement cc)"
    using no_wrap_handed_out [OF nwc run] s1 by simp
  have s2: "sint (tunnelIDAutoIncrement cc + 1) = sint (tunnelIDAutoIncrement cc) + 1"
    using b2 by (rule sint_succ)
  have "t = NewTunnel (FormatInt10 (tunnelIDAutoIncrement cc + 1)) rr aclr"
    using created by (auto simp: StartTunnel_new [OF none] split: prod.splits option.splits)
  then have y: "tunnel_int t = Some (sint (tunnelIDAutoIncrement cc) + 1)"
    by (simp add: tunnel_int_NewTunnel s2)
  have x: "Atoi (FormatInt10 (?n + 1)) = Some (sint ?n + 1)"
    by (simp add: FormatInt10_def Atoi_Itoa s1)
  from x y le show ?thesis by simp
qed

lemma consumed_id_unused:
  assumes inv: "ids_increasing c"
    and none0: "FindTunnelByRemote ext c r = None"
    and fails: "tunnel_Start ext (NewTunnel (FormatInt10 (tunnelIDAutoIncrement c + 1)) r acl) w = (Some err, wb)"
    and nw: "no_wrap ext (CallStartTunnel r acl # calls @ [CallStartTunnel rr aclr]) c w"
    and calls: "session_calls ext calls (fst (snd (StartTunnel ext r acl c w))) wb = (cc, wc)"
    and last: "StartTunnel ext rr aclr cc wc = (res, cd, wd)"
  shows "(\<forall>u \<in> set (Tunnels cd). TunnelID u \<noteq> FormatInt10 (tunnelIDAutoIncrement c + 1))
         \<and> (\<forall>t. res = Inr t \<longrightarrow> TunnelID t \<noteq> FormatInt10 (tunnelIDAutoIncrement c + 1))"
proof -
  let ?n = "tunnelIDAutoIncrement c"
  let ?c1 = "c\<lparr>tunnelIDAutoIncrement := ?n + 1\<rparr>"
  let ?x = "sint ?n + 1"
  have f: "StartTunnel ext r acl c w = (Inl err, ?c1, wb)"
    by (rule StartTunnel_fails [OF none0 fails])
  have b: "sint ?n < 9223372036854775807"
    using nw none0 by simp
  have s1: "sint (?n + 1) = ?x"
    using b by (rule sint_succ)
  have p1: "ids_increasing ?c1"
    by (rule ids_increasing_consume [OF inv b])
  have p2: "?x \<le> sint (tunnelIDAutoIncrement ?c1)"
    using s1 by simp
  have p3: "\<forall>u \<in> set (Tunnels ?c1). tunnel_int u \<noteq> Some ?x"
    using inv by (auto simp: ids_increasing_def list_all_iff id_allocated_def split: option.splits)
  have run: "session_calls ext (calls @ [CallStartTunnel rr aclr]) ?c1 wb = (cd, wd)"
    using calls f last by (simp add: session_calls_append)
  have nw1: "no_wrap ext (calls @ [CallStartTunnel rr aclr]) ?c1 wb"
    using nw f by simp
  have free: "\<forall>u \<in> set (Tunnels cd). tunnel_int u \<noteq> Some ?x"
    by (rule unused_run [OF p1 p2 p3 nw1 run])
  have x: "Atoi (FormatInt10 (?n + 1)) = Some ?x"
    by (simp add: FormatInt10_def Atoi_Itoa s1)
  have list: "\<forall>u \<in> set (Tunnels cd). TunnelID u \<noteq> FormatInt10 (?n + 1)"
  proof
    fix u
    assume "u \<in> set (Tunnels cd)"
    with free have "tunnel_int u \<noteq> Some ?x" by simp
    with x show "TunnelID u \<noteq> FormatInt10 (?n + 1)"
      by (auto simp: tunnel_int_def)
  qed
  have "\<forall>t. res = Inr t \<longrightarrow> t \<in> set (Tunnels cd)"
  proof (intro allI impI)
    fix t
    assume "res = Inr t"
    with last have "StartTunnel ext rr aclr cc wc = (Inr t, cd, wd)" by simp
    then show "t \<in> set (Tunnels cd)" by (rule StartTunnel_result_in_list)
  qed
  with list show ?thesis by blast
qed

lemma later_ids_larger:
  assumes none0: "FindTunnelByRemote ext c r = None"
    and fails: "tunnel_Start ext (NewTunnel (FormatInt10 (tunnelIDAutoIncrement c + 1)) r acl) w = (Some err, wb)"
    and nw: "no_wrap ext (CallStartTunnel r acl # calls) c w"
    and calls: "session_calls ext calls (fst (snd (StartTunnel ext r acl c w))) wb = (cc, wc)"
  shows "\<exists>x. Atoi (FormatInt10 (tunnelIDAutoIncrement c + 1)) = Some x
           \<and> x \<le> sint (tunnelIDAutoIncrement cc)
           \<and> handed_out ext calls (fst (snd (StartTunnel ext r acl c w))) wb
               = map Itoa [x + 1 .. sint (tunnelIDAutoIncrement cc)]
           \<and> (\<forall>s \<in> set (handed_out ext calls (fst (snd (StartTunnel ext r acl c w))) wb).
                 \<exists>y. Atoi s = Some y \<and> x < y)"
proof -
  let ?n = "tunnelIDAutoIncrement c"
  let ?c1 = "c\<lparr>tunnelIDAutoIncrement := ?n + 1\<rparr>"
  let ?x = "sint ?n + 1"
  have f: "StartTunnel ext r acl c w = (Inl err, ?c1, wb)"
    by (rule StartTunnel_fails [OF none0 fails])
  have b: "sint ?n < 9223372036854775807"
    using nw none0 by simp
  have s1: "sint (?n + 1) = ?x"
    using b by (rule sint_succ)
  have run: "session_calls ext calls ?c1 wb = (cc, wc)"
    using calls f by simp
  have nwc: "no_wrap ext calls ?c1 wb"
    using nw f by simp
  from no_wrap_handed_out [OF nwc run] s1
  have le: "?x \<le> sint (tunnelIDAutoIncrement cc)"
    and h: "handed_out ext calls ?c1 wb = map Itoa [?x + 1 .. sint (tunnelIDAutoIncrement cc)]"
    by simp_all
  have x: "Atoi (FormatInt10 (?n + 1)) = Some ?x"
    by (simp add: FormatInt10_def Atoi_Itoa s1)
  have "\<forall>s \<in> set (handed_out ext calls ?c1 wb). \<exists>y. Atoi s = Some y \<and> ?x < y"
    unfolding h by (auto simp: Atoi_Itoa)
  with x le h f show ?thesis by simp
qed

lemma StartTunnel_finds:
  assumes "FindTunnelByRemote ext c r = Some u"
  shows "StartTunnel ext r acl c w = (Inr u, c, w) \<and> u \<in> set (Tunnels c)"
  using assms by (simp add: StartTunnel_found FindTunnelByRemote_def find_by_remote_mem)

text \<open>
  C6, as the code has it. When no tunnel of the session equals the remote and the new
  tunnel's \<^verbatim>\<open>Start\<close> fails, \<^verbatim>\<open>StartTunnel\<close> returns the error, the tunnel list is
  unchanged and the counter has moved by one: the ID is consumed. As long as the \<^verbatim>\<open>int64\<close>
  counter does not wrap around (\<open>no_wrap\<close>), the consumed ID is not handed out again:
  over any further calls on the session every ID handed out is strictly larger than the
  consumed one, and so is the ID of the tunnel that a later \<^verbatim>\<open>StartTunnel\<close> creates (no
  tunnel equals its remote, and \<^verbatim>\<open>Start\<close> succeeds). A \<^verbatim>\<open>StartTunnel\<close> that finds
  an equal tunnel is successful too, and hands out no ID: it returns that tunnel of the
  list and leaves the session and its counter as they are.
\<close>

theorem StartTunnel_start_failure:
  "(FindTunnelByRemote ext c r = None
      \<and> tunnel_Start ext (NewTunnel (FormatInt10 (tunnelIDAutoIncrement c + 1)) r acl) w = (Some err, wb)
      \<longrightarrow> StartTunnel ext r acl c w
            = (Inl err, c\<lparr>tunnelIDAutoIncrement := tunnelIDAutoIncrement c + 1\<rparr>, wb))
   \<and> (FindTunnelByRemote ext c r = None
      \<and> tunnel_Start ext (NewTunnel (FormatInt10 (tunnelIDAutoIncrement c + 1)) r acl) w = (Some err, wb)
      \<and> no_wrap ext (CallStartTunnel r acl # calls @ [CallStartTunnel rr aclr]) c w
      \<and> session_calls ext calls (fst (snd (StartTunnel ext r acl c w))) wb = (cc, wc)
      \<and> FindTunnelByRemote ext cc rr = None
      \<and> StartTunnel ext rr aclr cc wc = (Inr t, cd, wd)
      \<longrightarrow> (\<exists>x y. Atoi (FormatInt10 (tunnelIDAutoIncrement c + 1)) = Some x
                  \<and> tunnel_int t = Some y \<and> x < y))
   \<and> (FindTunnelByRemote ext c r = None
      \<and> tunnel_Start ext (NewTunnel (FormatInt10 (tunnelIDAutoIncrement c + 1)) r acl) w = (Some err, wb)
      \<and> no_wrap ext (CallStartTunnel r acl # further) c w
      \<and> session_calls ext further (fst (snd (StartTunnel ext r acl c w))) wb = (ce, we)
      \<longrightarrow> (\<exists>x. Atoi (FormatInt10 (tunnelIDAutoIncrement c + 1)) = Some x
               \<and> x \<le> sint (tunnelIDAutoIncrement ce)
               \<and> handed_out ext further (fst (snd (StartTunnel ext r acl c w))) wb
                   = map Itoa [x + 1 .. sint (tunnelIDAutoIncrement ce)]
               \<and> (\<forall>s \<in> set (handed_out ext further (fst (snd (StartTunnel ext r acl c w))) wb).
                     \<exists>y. Atoi s = Some y \<and> x < y)))
   \<and> (FindTunnelByRemote ext cg rg = Some u
      \<longrightarrow> StartTunnel ext rg aclg cg wg = (Inr u, cg, wg) \<and> u \<in> set (Tunnels cg))"
proof -
  have a: "FindTunnelByRemote ext c r = None
      \<and> tunnel_Start ext (NewTunnel (FormatInt10 (tunnelIDAutoIncrement c + 1)) r acl) w = (Some err, wb)
      \<longrightarrow> StartTunnel ext r acl c w
            = (Inl err, c\<lparr>tunnelIDAutoIncrement := tunnelIDAutoIncrement c + 1\<rparr>, wb)"
    by (simp add: StartTunnel_fails)
  have b: "FindTunnelByRemote ext c r = None
      \<and> tunnel_Start ext (NewTunnel (FormatInt10 (tunnelIDAutoIncrement c + 1)) r acl) w = (Some err, wb)
      \<and> no_wrap ext (CallStartTunnel r acl # calls @ [CallStartTunnel rr aclr]) c w
      \<and> session_calls ext calls (fst (snd (StartTunnel ext r acl c w))) wb = (cc, wc)
      \<and> FindTunnelByRemote ext cc rr = None
      \<and> StartTunnel ext rr aclr cc wc = (Inr t, cd, wd)
      \<longrightarrow> (\<exists>x y. Atoi (FormatInt10 (tunnelIDAutoIncrement c + 1)) = Some x
                  \<and> tunnel_int t = Some y \<and> x < y)"
  proof
    assume "FindTunnelByRemote ext c r = None
      \<and> tunnel_Start ext (NewTunnel (FormatInt10 (tunnelIDAutoIncrement c + 1)) r acl) w = (Some err, wb)
      \<and> no_wrap ext (CallStartTunnel r acl # calls @ [CallStartTunnel rr aclr]) c w
      \<and> session_calls ext calls (fst (snd (StartTunnel ext r acl c w))) wb = (cc, wc)
      \<and> FindTunnelByRemote ext cc rr = None
      \<and> StartTunnel ext rr aclr cc wc = (Inr t, cd, wd)"
    then have h1: "FindTunnelByRemote ext c r = None"
      and h2: "tunnel_Start ext (NewTunnel (FormatInt10 (tunnelIDAutoIncrement c + 1)) r acl) w = (Some err, wb)"
      and h3: "no_wrap ext (CallStartTunnel r acl # calls @ [CallStartTunnel rr aclr]) c w"
      and h4: "session_calls ext calls (fst (snd (StartTunnel ext r acl c w))) wb = (cc, wc)"
      and h5: "FindTunnelByRemote ext cc rr = None"
      and h6: "StartTunnel ext rr aclr cc wc = (Inr t, cd, wd)"
      by blast+
    show "\<exists>x y. Atoi (FormatInt10 (tunnelIDAutoIncrement c + 1)) = Some x \<and> tunnel_int t = Some y \<and> x < y"
      by (rule later_id_larger [OF h1 h2 h3 h4 h5 h6])
  qed
  have c: "FindTunnelByRemote ext c r = None
      \<and> tunnel_Start ext (NewTunnel (FormatInt10 (tunnelIDAutoIncrement c + 1)) r acl) w = (Some err, wb)
      \<and> no_wrap ext (CallStartTunnel r acl # further) c w
      \<and> session_calls ext further (fst (snd (StartTunnel ext r acl c w))) wb = (ce, we)
      \<longrightarrow> (\<exists>x. Atoi (FormatInt10 (tunnelIDAutoIncrement c + 1)) = Some x
               \<and> x \<le> sint (tunnelIDAutoIncrement ce)
               \<and> handed_out ext further (fst (snd (StartTunnel ext r acl c w))) wb
                   = map Itoa [x + 1 .. sint (tunnelIDAutoIncrement ce)]
               \<and> (\<forall>s \<in> set (handed_out ext further (fst (snd (StartTunnel ext r acl c w))) wb).
                     \<exists>y. Atoi s = Some y \<and> x < y))"
  proof
    assume "FindTunnelByRemote ext c r = None
      \<and> tunnel_Start ext (NewTunnel (FormatInt10 (tunnelIDAutoIncrement c + 1)) r acl) w = (Some err, wb)
      \<and> no_wrap ext (CallStartTunnel r acl # further) c w
      \<and> session_calls ext further (fst (snd (StartTunnel ext r acl c w))) wb = (ce, we)"
    then have h1: "FindTunnelByRemote ext c r = None"
      and h2: "tunnel_Start ext (NewTunnel (FormatInt10 (tunnelIDAutoIncrement c + 1)) r acl) w = (Some err, wb)"
      and h3: "no_wrap ext (CallStartTunnel r acl # further) c w"
      and h4: "session_calls ext further (fst (snd (StartTunnel ext r acl c w))) wb = (ce, we)"
      by blast+
    show "\<exists>x. Atoi (FormatInt10 (tunnelIDAutoIncrement c + 1)) = Some x
               \<and> x \<le> sint (tunnelIDAutoIncrement ce)
               \<and> handed_out ext further (fst (snd (StartTunnel ext r acl c w))) wb
                   = map Itoa [x + 1 .. sint (tunnelIDAutoIncrement ce)]
               \<and> (\<forall>s \<in> set (handed_out ext further (fst (snd (StartTunnel ext r acl c w))) wb).
                     \<exists>y. Atoi s = Some y \<and> x < y)"
      by (rule later_ids_larger [OF h1 h2 h3 h4])
  qed
  have d: "FindTunnelByRemote ext cg rg = Some u
      \<longrightarrow> StartTunnel ext rg aclg cg wg = (Inr u, cg, wg) \<and> u \<in> set (Tunnels cg)"
  proof
    assume h: "FindTunnelByRemote ext cg rg = Some u"
    show "StartTunnel ext rg aclg cg wg = (Inr u, cg, wg) \<and> u \<in> set (Tunnels cg)"
      by (rule StartTunnel_finds [OF h])
  qed
  from a b c d show ?thesis by (intro conjI)
qed

theorem StartTunnel_start_failure_witness:
  "StartTunnel sim (remote_to ''2001'' ''23'') None
      (new_client ''s''\<lparr>Tunnels := [tunnel_of ''1'' ''80'' ''8080''], tunnelIDAutoIncrement := 1\<rparr>)
      (busy_world\<lparr>listening := [(''0.0.0.0'', ''2001''), (''0.0.0.0'', ''80'')]\<rparr>)
     = (Inl (Error ''BindError''),
        new_client ''s''\<lparr>Tunnels := [tunnel_of ''1'' ''80'' ''8080''], tunnelIDAutoIncrement := 2\<rparr>,
        busy_world\<lparr>listening := [(''0.0.0.0'', ''2001''), (''0.0.0.0'', ''80'')]\<rparr>)
   \<and> StartTunnel sim (remote_to ''80'' ''8080'') None
        (new_client ''s''\<lparr>Tunnels := [tunnel_of ''1'' ''80'' ''8080''], tunnelIDAutoIncrement := 2\<rparr>)
        (busy_world\<lparr>listening := [(''0.0.0.0'', ''2001''), (''0.0.0.0'', ''80'')]\<rparr>)
     = (Inr (tunnel_of ''1'' ''80'' ''8080''),
        new_client ''s''\<lparr>Tunnels := [tunnel_of ''1'' ''80'' ''8080''], tunnelIDAutoIncrement := 2\<rparr>,
        busy_world\<lparr>listening := [(''0.0.0.0'', ''2001''), (''0.0.0.0'', ''80'')]\<rparr>)
   \<and> StartTunnel sim (remote_to ''81'' ''8081'') None
        (new_client ''s''\<lparr>Tunnels := [tunnel_of ''1'' ''80'' ''8080''], tunnelIDAutoIncrement := 2\<rparr>)
        (busy_world\<lparr>listening := [(''0.0.0.0'', ''2001''), (''0.0.0.0'', ''80'')]\<rparr>)
     = (Inr (tunnel_of ''3'' ''81'' ''8081''),
        new_client ''s''\<lparr>Tunnels := [tunnel_of ''1'' ''80'' ''8080'', tunnel_of ''3'' ''81'' ''8081''],
                          tunnelIDAutoIncrement := 3\<rparr>,
        busy_world\<lparr>listening := [(''0.0.0.0'', ''2001''), (''0.0.0.0'', ''80''), (''0.0.0.0'', ''81'')]\<rparr>)
   \<and> (\<exists>x y. Atoi ''2'' = Some x \<and> tunnel_int (tunnel_of ''3'' ''81'' ''8081'') = Some y \<and> x < y)
   \<and> handed_out sim
        [CallStartTunnel (remote_to ''80'' ''8080'') None, CallStartTunnel (remote_to ''81'' ''8081'') None]
        (new_client ''s''\<lparr>Tunnels := [tunnel_of ''1'' ''80'' ''8080''], tunnelIDAutoIncrement := 2\<rparr>)
        (busy_world\<lparr>listening := [(''0.0.0.0'', ''2001''), (''0.0.0.0'', ''80'')]\<rparr>)
     = [''3'']"
proof -
  let ?t1 = "tunnel_of ''1'' ''80'' ''8080''"
  let ?t3 = "tunnel_of ''3'' ''81'' ''8081''"
  let ?c = "new_client ''s''\<lparr>Tunnels := [?t1], tunnelIDAutoIncrement := 1\<rparr>"
  let ?c2 = "new_client ''s''\<lparr>Tunnels := [?t1], tunnelIDAutoIncrement := 2\<rparr>"
  let ?c3 = "new_client ''s''\<lparr>Tunnels := [?t1, ?t3], tunnelIDAutoIncrement := 3\<rparr>"
  let ?w = "busy_world\<lparr>listening := [(''0.0.0.0'', ''2001''), (''0.0.0.0'', ''80'')]\<rparr>"
  let ?w3 = "busy_world\<lparr>listening := [(''0.0.0.0'', ''2001''), (''0.0.0.0'', ''80''), (''0.0.0.0'', ''81'')]\<rparr>"
  let ?bad = "remote_to ''2001'' ''23''"
  let ?r80 = "remote_to ''80'' ''8080''"
  let ?r81 = "remote_to ''81'' ''8081''"
  have none: "FindTunnelByRemote sim ?c ?bad = None"
    by (simp add: FindTunnelByRemote_def sim_defs)
  have start: "tunnel_Start sim (NewTunnel (FormatInt10 (tunnelIDAutoIncrement ?c + 1)) ?bad None) ?w
      = (Some (Error ''BindError''), ?w)"
    by (simp add: busy_world_def sim_defs)
  note inst = StartTunnel_start_failure [where ext = sim and c = ?c and r = ?bad and acl = None
      and w = ?w and err = "Error ''BindError''" and wb = ?w
      and calls = "[CallStartTunnel ?r80 None]" and cc = ?c2 and wc = ?w
      and rr = ?r81 and aclr = None and t = ?t3 and cd = ?c3 and wd = ?w3
      and further = "[CallStartTunnel ?r80 None, CallStartTunnel ?r81 None]" and ce = ?c3 and we = ?w3
      and cg = ?c2 and rg = ?r80 and aclg = None and wg = ?w and u = ?t1]
  have failed: "StartTunnel sim ?bad None ?c ?w = (Inl (Error ''BindError''), ?c2, ?w)"
    using inst [THEN conjunct1, THEN mp, OF conjI [OF none start]] by (simp add: new_client_def)
  have finds: "FindTunnelByRemote sim ?c2 ?r80 = Some ?t1"
    by (simp add: FindTunnelByRemote_def sim_defs)
  have again: "StartTunnel sim ?r80 None ?c2 ?w = (Inr ?t1, ?c2, ?w)"
    using inst [THEN conjunct2, THEN conjunct2, THEN conjunct2, THEN mp, OF finds] by (rule conjunct1)
  have created: "StartTunnel sim ?r81 None ?c2 ?w = (Inr ?t3, ?c3, ?w3)"
    by (simp add: busy_world_def sim_defs run_defs FormatInt10_3)
  have none2: "FindTunnelByRemote sim ?c2 ?r81 = None"
    by (simp add: FindTunnelByRemote_def sim_defs)
  have some2: "FindTunnelByRemote sim ?c2 ?r80 \<noteq> None"
    by (simp add: finds)
  have one: "sint (tunnelIDAutoIncrement ?c) < 9223372036854775807"
    "sint (tunnelIDAutoIncrement ?c2) < 9223372036854775807"
    by simp_all
  have calls1: "session_calls sim [CallStartTunnel ?r80 None] (fst (snd (StartTunnel sim ?bad None ?c ?w))) ?w
      = (?c2, ?w)"
    by (simp only: failed fst_conv snd_conv session_calls.simps again prod.case)
  have calls2: "session_calls sim [CallStartTunnel ?r80 None, CallStartTunnel ?r81 None]
      (fst (snd (StartTunnel sim ?bad None ?c ?w))) ?w = (?c3, ?w3)"
    by (simp only: failed fst_conv snd_conv session_calls.simps again created prod.case)
  have nw1: "no_wrap sim (CallStartTunnel ?bad None # [CallStartTunnel ?r80 None] @ [CallStartTunnel ?r81 None]) ?c ?w"
    using none none2 some2 one
    by (simp only: append.simps no_wrap.simps failed again created prod.case) simp
  have nw2: "no_wrap sim (CallStartTunnel ?bad None # [CallStartTunnel ?r80 None, CallStartTunnel ?r81 None]) ?c ?w"
    using nw1 by simp
  have "\<exists>x y. Atoi (FormatInt10 (tunnelIDAutoIncrement ?c + 1)) = Some x
      \<and> tunnel_int ?t3 = Some y \<and> x < y"
    by (rule inst [THEN conjunct2, THEN conjunct1, THEN mp])
       (intro conjI none start nw1 calls1 none2 created)
  then have larger: "\<exists>x y. Atoi ''2'' = Some x \<and> tunnel_int ?t3 = Some y \<and> x < y"
    by (simp add: FormatInt10_2)
  have "\<exists>x. Atoi (FormatInt10 (tunnelIDAutoIncrement ?c + 1)) = Some x
      \<and> x \<le> sint (tunnelIDAutoIncrement ?c3)
      \<and> handed_out sim [CallStartTunnel ?r80 None, CallStartTunnel ?r81 None]
            (fst (snd (StartTunnel sim ?bad None ?c ?w))) ?w
          = map Itoa [x + 1 .. sint (tunnelIDAutoIncrement ?c3)]
      \<and> (\<forall>s \<in> set (handed_out sim [CallStartTunnel ?r80 None, CallStartTunnel ?r81 None]
            (fst (snd (StartTunnel sim ?bad None ?c ?w))) ?w). \<exists>y. Atoi s = Some y \<and> x < y)"
    by (rule inst [THEN conjunct2, THEN conjunct2, THEN conjunct1, THEN mp])
       (intro conjI none start nw2 calls2)
  then obtain x where x: "Atoi (FormatInt10 (tunnelIDAutoIncrement ?c + 1)) = Some x"
    and h: "handed_out sim [CallStartTunnel ?r80 None, CallStartTunnel ?r81 None]
            (fst (snd (StartTunnel sim ?bad None ?c ?w))) ?w
          = map Itoa [x + 1 .. sint (tunnelIDAutoIncrement ?c3)]"
    by blast
  from x have "x = 2" by (simp add: FormatInt10_2 Atoi_small)
  with h have "handed_out sim [CallStartTunnel ?r80 None, CallStartTunnel ?r81 None]
            (fst (snd (StartTunnel sim ?bad None ?c ?w))) ?w = map Itoa [3 .. 3]"
    by simp
  then have ids: "handed_out sim [CallStartTunnel ?r80 None, CallStartTunnel ?r81 None] ?c2 ?w = [''3'']"
    by (simp only: failed fst_conv snd_conv) (simp add: Itoa_def udecimal.simps digit_char_def)
  from failed again created larger ids show ?thesis by (intro conjI)
qed

text \<open>
  C6 as stated fails in two ways. A session has the tunnel \<open>1\<close>; a
  \<^verbatim>\<open>StartTunnel\<close> for another remote fails to bind and consumes the ID \<open>2\<close>; the next
  \<^verbatim>\<open>StartTunnel\<close>, for the remote of tunnel \<open>1\<close>, is successful and returns that
  tunnel, whose ID is not larger than \<open>2\<close>. And with the counter at \<open>2\<^sup>6\<^sup>3 - 2\<close>, a
  failing \<^verbatim>\<open>StartTunnel\<close> consumes the ID \<open>9223372036854775807\<close> and the next one
  creates a tunnel with the ID \<open>-9223372036854775808\<close>.
\<close>

theorem StartTunnel_next_id_counterexample:
  "StartTunnel sim (remote_to ''2001'' ''23'') None
      (new_client ''s''\<lparr>Tunnels := [tunnel_of ''1'' ''80'' ''8080''], tunnelIDAutoIncrement := 1\<rparr>)
      (busy_world\<lparr>listening := [(''0.0.0.0'', ''2001''), (''0.0.0.0'', ''80'')]\<rparr>)
     = (Inl (Error ''BindError''),
        new_client ''s''\<lparr>Tunnels := [tunnel_of ''1'' ''80'' ''8080''], tunnelIDAutoIncrement := 2\<rparr>,
        busy_world\<lparr>listening := [(''0.0.0.0'', ''2001''), (''0.0.0.0'', ''80'')]\<rparr>)
   \<and> fst (StartTunnel sim (remote_to ''80'' ''8080'') None
        (new_client ''s''\<lparr>Tunnels := [tunnel_of ''1'' ''80'' ''8080''], tunnelIDAutoIncrement := 2\<rparr>)
        (busy_world\<lparr>listening := [(''0.0.0.0'', ''2001''), (''0.0.0.0'', ''80'')]\<rparr>))
     = Inr (tunnel_of ''1'' ''80'' ''8080'')
   \<and> tunnel_int (tunnel_of ''1'' ''80'' ''8080'') = Some 1
   \<and> StartTunnel sim (remote_to ''2001'' ''23'') None
      (new_client ''s''\<lparr>tunnelIDAutoIncrement := 9223372036854775806\<rparr>) busy_world
     = (Inl (Error ''BindError''),
        new_client ''s''\<lparr>tunnelIDAutoIncrement := 9223372036854775807\<rparr>, busy_world)
   \<and> fst (StartTunnel sim (remote_to ''81'' ''8081'') None
        (new_client ''s''\<lparr>tunnelIDAutoIncrement := 9223372036854775807\<rparr>) busy_world)
     = Inr (tunnel_of ''-9223372036854775808'' ''81'' ''8081'')
   \<and> tunnel_int (tunnel_of ''-9223372036854775808'' ''81'' ''8081'') = Some (- 9223372036854775808)"
proof -
  have a: "StartTunnel sim (remote_to ''2001'' ''23'') None
      (new_client ''s''\<lparr>Tunnels := [tunnel_of ''1'' ''80'' ''8080''], tunnelIDAutoIncrement := 1\<rparr>)
      (busy_world\<lparr>listening := [(''0.0.0.0'', ''2001''), (''0.0.0.0'', ''80'')]\<rparr>)
     = (Inl (Error ''BindError''),
        new_client ''s''\<lparr>Tunnels := [tunnel_of ''1'' ''80'' ''8080''], tunnelIDAutoIncrement := 2\<rparr>,
        busy_world\<lparr>listening := [(''0.0.0.0'', ''2001''), (''0.0.0.0'', ''80'')]\<rparr>)"
    by (simp add: busy_world_def sim_defs run_defs)
  have b: "fst (StartTunnel sim (remote_to ''80'' ''8080'') None
        (new_client ''s''\<lparr>Tunnels := [tunnel_of ''1'' ''80'' ''8080''], tunnelIDAutoIncrement := 2\<rparr>)
        (busy_world\<lparr>listening := [(''0.0.0.0'', ''2001''), (''0.0.0.0'', ''80'')]\<rparr>))
     = Inr (tunnel_of ''1'' ''80'' ''8080'')"
    by (simp add: busy_world_def sim_defs run_defs)
  have c: "tunnel_int (tunnel_of ''1'' ''80'' ''8080'') = Some 1"
    by (simp add: tunnel_int_def tunnel_of_def NewTunnel_def Atoi_small)
  have d: "StartTunnel sim (remote_to ''2001'' ''23'') None
      (new_client ''s''\<lparr>tunnelIDAutoIncrement := 9223372036854775806\<rparr>) busy_world
     = (Inl (Error ''BindError''),
        new_client ''s''\<lparr>tunnelIDAutoIncrement := 9223372036854775807\<rparr>, busy_world)"
    by (simp add: busy_world_def sim_defs StartTunnel_def FindTunnelByRemote_def
        generateNewTunnelID_def Let_def)
  have e: "fst (StartTunnel sim (remote_to ''81'' ''8081'') None
        (new_client ''s''\<lparr>tunnelIDAutoIncrement := 9223372036854775807\<rparr>) busy_world)
     = Inr (tunnel_of ''-9223372036854775808'' ''81'' ''8081'')"
    by (simp add: busy_world_def sim_defs StartTunnel_def FindTunnelByRemote_def
        generateNewTunnelID_def Let_def FormatInt10_wrap)
  have f: "tunnel_int (tunnel_of ''-9223372036854775808'' ''81'' ''8081'') = Some (- 9223372036854775808)"
    by (simp add: tunnel_int_def tunnel_of_def NewTunnel_def Atoi_wrap)
  from a b c d e f show ?thesis by (intro conjI)
qed

end
